theory Spec2Isabelle
  imports Main "HOL-Library.Sublist"
begin

section \<open>Kubernetes metadata\<close>

text \<open>
  \<^verbatim>\<open>types.NamespacedName\<close>, and of \<^verbatim>\<open>metav1.ObjectMeta\<close> and \<^verbatim>\<open>metav1.TypeMeta\<close> the
  fields the code reads or sets. Go strings are byte strings, hence \<open>string\<close>.
\<close>

record NamespacedName =
  Namespace :: string
  Name :: string

record ObjectMeta =
  Namespace :: string
  Name :: string

record TypeMeta =
  APIVersion :: string
  Kind :: string

section \<open>Protocol buffer messages\<close>

text \<open>
  The messages of the proto package (imported as \<^verbatim>\<open>v1alpha1\<close> by the converters), with
  the prefix \<open>pb_\<close>. A pointer is an \<open>option\<close>, nil being \<open>None\<close>: the scalar
  fields are pointers (the converters to proto fill them with \<^verbatim>\<open>proto.String\<close> and
  \<^verbatim>\<open>proto.Bool\<close>), a message field is a pointer to the message, and a repeated
  message field is a slice of pointers, any of which can be nil.
\<close>

record pb_StageSubscription =
  Name :: "string option"

record pb_GitSubscription =
  RepoURL :: "string option"
  Branch :: "string option"

record pb_ImageSubscription =
  RepoURL :: "string option"
  UpdateStrategy :: "string option"
  SemverConstraint :: "string option"
  AllowTags :: "string option"
  IgnoreTags :: "string list"
  Platform :: "string option"

record pb_ChartSubscription =
  RegistryURL :: "string option"
  Name :: "string option"
  SemverConstraint :: "string option"

record pb_RepoSubscriptions =
  Git :: "pb_GitSubscription option list"
  Images :: "pb_ImageSubscription option list"
  Charts :: "pb_ChartSubscription option list"

record pb_Subscriptions =
  Repos :: "pb_RepoSubscriptions option"
  UpstreamStages :: "pb_StageSubscription option list"

datatype pb_BookkeeperPromotionMechanism = pb_BookkeeperPromotionMechanism

record pb_KustomizeImageUpdate =
  Image :: "string option"
  Path :: "string option"

record pb_KustomizePromotionMechanism =
  Images :: "pb_KustomizeImageUpdate option list"

record pb_HelmImageUpdate =
  Image :: "string option"
  ValuesFilePath :: "string option"
  Key :: "string option"
  Value :: "string option"

record pb_HelmChartDependencyUpdate =
  RegistryURL :: "string option"
  Name :: "string option"
  ChartPath :: "string option"

record pb_HelmPromotionMechanism =
  Images :: "pb_HelmImageUpdate option list"
  Charts :: "pb_HelmChartDependencyUpdate option list"

record pb_GitRepoUpdate =
  RepoURL :: "string option"
  ReadBranch :: "string option"
  WriteBranch :: "string option"
  Bookkeeper :: "pb_BookkeeperPromotionMechanism option"
  Kustomize :: "pb_KustomizePromotionMechanism option"
  Helm :: "pb_HelmPromotionMechanism option"

record pb_ArgoCDKustomize =
  Images :: "string list"

record pb_ArgoCDHelmImageUpdate =
  Image :: "string option"
  Key :: "string option"
  Value :: "string option"

record pb_ArgoCDHelm =
  Images :: "pb_ArgoCDHelmImageUpdate option list"

record pb_ArgoCDSourceUpdate =
  RepoURL :: "string option"
  Chart :: "string option"
  UpdateTargetRevision :: "bool option"
  Kustomize :: "pb_ArgoCDKustomize option"
  Helm :: "pb_ArgoCDHelm option"

record pb_ArgoCDAppUpdate =
  AppName :: "string option"
  AppNamespace :: "string option"
  SourceUpdates :: "pb_ArgoCDSourceUpdate option list"

record pb_PromotionMechanisms =
  GitRepoUpdates :: "pb_GitRepoUpdate option list"
  ArgoCDAppUpdates :: "pb_ArgoCDAppUpdate option list"

record pb_StageSpec =
  Subscriptions :: "pb_Subscriptions option"
  PromotionMechanisms :: "pb_PromotionMechanisms option"

record pb_PromotionSpec =
  Stage :: "string option"
  State :: "string option"

record pb_PromotionStatus =
  Phase :: "string option"
  Error :: "string option"

record pb_Promotion =
  Metadata :: "ObjectMeta option"
  Spec :: "pb_PromotionSpec option"
  Status :: "pb_PromotionStatus option"

text \<open>
  The generated getters of the proto package: the value of a scalar field, or the zero
  value when the field is nil. A getter of a message field or of a repeated field returns
  the field as it is. Every getter below is called on a receiver already found non-nil,
  but for those of \<^verbatim>\<open>FromStageSpecProto\<close>, which return nil on a nil receiver.
\<close>

definition GetString :: "string option \<Rightarrow> string" where
  "GetString field = (case field of None \<Rightarrow> '''' | Some v \<Rightarrow> v)"

definition GetBool :: "bool option \<Rightarrow> bool" where
  "GetBool field = (case field of None \<Rightarrow> False | Some v \<Rightarrow> v)"

section \<open>The API types\<close>

text \<open>
  The types of the API package (\<^verbatim>\<open>kubev1alpha1\<close> to the converters, \<^verbatim>\<open>kargoapi\<close> to
  the watches), with the fields the converters fill: a value where the converter stores
  a dereferenced result, an \<open>option\<close> where it stores the pointer.
\<close>

type_synonym ImageUpdateStrategy = string

type_synonym ImageUpdateValueType = string

type_synonym PromotionPhase = string

record StageSubscription =
  Name :: string

record GitSubscription =
  RepoURL :: string
  Branch :: string

record ImageSubscription =
  RepoURL :: string
  UpdateStrategy :: ImageUpdateStrategy
  SemverConstraint :: string
  AllowTags :: string
  IgnoreTags :: "string list"
  Platform :: string

record ChartSubscription =
  RegistryURL :: string
  Name :: string
  SemverConstraint :: string

record RepoSubscriptions =
  Git :: "GitSubscription list"
  Images :: "ImageSubscription list"
  Charts :: "ChartSubscription list"

record Subscriptions =
  Repos :: "RepoSubscriptions option"
  UpstreamStages :: "StageSubscription list"

datatype BookkeeperPromotionMechanism = BookkeeperPromotionMechanism

record KustomizeImageUpdate =
  Image :: string
  Path :: string

record KustomizePromotionMechanism =
  Images :: "KustomizeImageUpdate list"

record HelmImageUpdate =
  Image :: string
  ValuesFilePath :: string
  Key :: string
  Value :: ImageUpdateValueType

record HelmChartDependencyUpdate =
  RegistryURL :: string
  Name :: string
  ChartPath :: string

record HelmPromotionMechanism =
  Images :: "HelmImageUpdate list"
  Charts :: "HelmChartDependencyUpdate list"

record GitRepoUpdate =
  RepoURL :: string
  ReadBranch :: string
  WriteBranch :: string
  Bookkeeper :: "BookkeeperPromotionMechanism option"
  Kustomize :: "KustomizePromotionMechanism option"
  Helm :: "HelmPromotionMechanism option"

record ArgoCDKustomize =
  Images :: "string list"

record ArgoCDHelmImageUpdate =
  Image :: string
  Key :: string
  Value :: ImageUpdateValueType

record ArgoCDHelm =
  Images :: "ArgoCDHelmImageUpdate list"

record ArgoCDSourceUpdate =
  RepoURL :: string
  Chart :: string
  UpdateTargetRevision :: bool
  Kustomize :: "ArgoCDKustomize option"
  Helm :: "ArgoCDHelm option"

record ArgoCDAppUpdate =
  AppName :: string
  AppNamespace :: string
  SourceUpdates :: "ArgoCDSourceUpdate list"

record PromotionMechanisms =
  GitRepoUpdates :: "GitRepoUpdate list"
  ArgoCDAppUpdates :: "ArgoCDAppUpdate list"

record StageSpec =
  Subscriptions :: "Subscriptions option"
  PromotionMechanisms :: "PromotionMechanisms option"

record PromotionSpec =
  Stage :: string
  State :: string

record PromotionStatus =
  Phase :: PromotionPhase
  Error :: string

text \<open>
  \<^verbatim>\<open>Promotion\<close>: its \<^verbatim>\<open>Spec\<close> is a pointer (\<^verbatim>\<open>FromPromotionProto\<close> stores the pointer
  that \<^verbatim>\<open>FromPromotionSpecProto\<close> returns), its \<^verbatim>\<open>Status\<close> a value.
\<close>

record Promotion =
  TypeMeta :: TypeMeta
  ObjectMeta :: ObjectMeta
  Spec :: "PromotionSpec option"
  Status :: PromotionStatus

section \<open>The converters from proto\<close>

text \<open>
  A converter returns a pointer, so an \<open>option\<close>. Where a converter dereferences the
  result of another (\<^verbatim>\<open>*FromGitSubscriptionProto(git)\<close>) a nil result is a panic, which
  is a result of its own: \<open>Inl\<close>.
\<close>

datatype panic = NilPointerDereference

definition deref :: "'a option \<Rightarrow> panic + 'a" where
  "deref p = (case p of None \<Rightarrow> Inl NilPointerDereference | Some v \<Rightarrow> Inr v)"

text \<open>What comes next runs only if what came before did not panic.\<close>

definition andThen :: "panic + 'a \<Rightarrow> ('a \<Rightarrow> panic + 'b) \<Rightarrow> panic + 'b" where
  "andThen m f = (case m of Inl e \<Rightarrow> Inl e | Inr v \<Rightarrow> f v)"

text \<open>
  The loop that fills a slice of values from a slice of pointers:
  \<^verbatim>\<open>for idx, x := range xs { out[idx] = *From(x) }\<close>.
\<close>

fun convertEach :: "('a \<Rightarrow> panic + 'b option) \<Rightarrow> 'a list \<Rightarrow> panic + 'b list" where
  "convertEach From [] = Inr []"
| "convertEach From (x # xs) =
     andThen (From x) (\<lambda>r.
     andThen (deref r) (\<lambda>v.
     andThen (convertEach From xs) (\<lambda>vs. Inr (v # vs))))"

definition FromStageSubscriptionProto :: "pb_StageSubscription option \<Rightarrow> StageSubscription option" where
  "FromStageSubscriptionProto s =
     (case s of
        None \<Rightarrow> None
      | Some s \<Rightarrow> Some \<lparr>StageSubscription.Name = GetString (pb_StageSubscription.Name s)\<rparr>)"

definition FromGitSubscriptionProto :: "pb_GitSubscription option \<Rightarrow> GitSubscription option" where
  "FromGitSubscriptionProto s =
     (case s of
        None \<Rightarrow> None
      | Some s \<Rightarrow>
          Some \<lparr>GitSubscription.RepoURL = GetString (pb_GitSubscription.RepoURL s),
                GitSubscription.Branch = GetString (pb_GitSubscription.Branch s)\<rparr>)"

definition FromImageSubscriptionProto :: "pb_ImageSubscription option \<Rightarrow> ImageSubscription option" where
  "FromImageSubscriptionProto s =
     (case s of
        None \<Rightarrow> None
      | Some s \<Rightarrow>
          Some \<lparr>ImageSubscription.RepoURL = GetString (pb_ImageSubscription.RepoURL s),
                ImageSubscription.UpdateStrategy = GetString (pb_ImageSubscription.UpdateStrategy s),
                ImageSubscription.SemverConstraint = GetString (pb_ImageSubscription.SemverConstraint s),
                ImageSubscription.AllowTags = GetString (pb_ImageSubscription.AllowTags s),
                ImageSubscription.IgnoreTags = pb_ImageSubscription.IgnoreTags s,
                ImageSubscription.Platform = GetString (pb_ImageSubscription.Platform s)\<rparr>)"

definition FromChartSubscriptionProto :: "pb_ChartSubscription option \<Rightarrow> ChartSubscription option" where
  "FromChartSubscriptionProto s =
     (case s of
        None \<Rightarrow> None
      | Some s \<Rightarrow>
          Some \<lparr>ChartSubscription.RegistryURL = GetString (pb_ChartSubscription.RegistryURL s),
                ChartSubscription.Name = GetString (pb_ChartSubscription.Name s),
                ChartSubscription.SemverConstraint = GetString (pb_ChartSubscription.SemverConstraint s)\<rparr>)"

definition FromRepoSubscriptionsProto :: "pb_RepoSubscriptions option \<Rightarrow> panic + RepoSubscriptions option" where
  "FromRepoSubscriptionsProto s =
     (case s of
        None \<Rightarrow> Inr None
      | Some s \<Rightarrow>
          andThen (convertEach (\<lambda>git. Inr (FromGitSubscriptionProto git)) (pb_RepoSubscriptions.Git s))
            (\<lambda>gitSubscriptions.
          andThen (convertEach (\<lambda>image. Inr (FromImageSubscriptionProto image)) (pb_RepoSubscriptions.Images s))
            (\<lambda>imageSubscriptions.
          andThen (convertEach (\<lambda>chart. Inr (FromChartSubscriptionProto chart)) (pb_RepoSubscriptions.Charts s))
            (\<lambda>chartSubscriptions.
          Inr (Some \<lparr>RepoSubscriptions.Git = gitSubscriptions,
                      RepoSubscriptions.Images = imageSubscriptions,
                      RepoSubscriptions.Charts = chartSubscriptions\<rparr>)))))"

definition FromSubscriptionsProto :: "pb_Subscriptions option \<Rightarrow> panic + Subscriptions option" where
  "FromSubscriptionsProto s =
     (case s of
        None \<Rightarrow> Inr None
      | Some s \<Rightarrow>
          andThen (convertEach (\<lambda>stage. Inr (FromStageSubscriptionProto stage))
                     (pb_Subscriptions.UpstreamStages s))
            (\<lambda>upstreamStages.
          andThen (FromRepoSubscriptionsProto (pb_Subscriptions.Repos s))
            (\<lambda>repos.
          Inr (Some \<lparr>Subscriptions.Repos = repos,
                      Subscriptions.UpstreamStages = upstreamStages\<rparr>))))"

definition FromBookkeeperPromotionMechanismProto ::
  "pb_BookkeeperPromotionMechanism option \<Rightarrow> BookkeeperPromotionMechanism option" where
  "FromBookkeeperPromotionMechanismProto m =
     (case m of None \<Rightarrow> None | Some m \<Rightarrow> Some BookkeeperPromotionMechanism)"

definition FromKustomizeImageUpdateProto :: "pb_KustomizeImageUpdate option \<Rightarrow> KustomizeImageUpdate option" where
  "FromKustomizeImageUpdateProto u =
     (case u of
        None \<Rightarrow> None
      | Some u \<Rightarrow>
          Some \<lparr>KustomizeImageUpdate.Image = GetString (pb_KustomizeImageUpdate.Image u),
                KustomizeImageUpdate.Path = GetString (pb_KustomizeImageUpdate.Path u)\<rparr>)"

definition FromKustomizePromotionMechanismProto ::
  "pb_KustomizePromotionMechanism option \<Rightarrow> panic + KustomizePromotionMechanism option" where
  "FromKustomizePromotionMechanismProto m =
     (case m of
        None \<Rightarrow> Inr None
      | Some m \<Rightarrow>
          andThen (convertEach (\<lambda>image. Inr (FromKustomizeImageUpdateProto image))
                     (pb_KustomizePromotionMechanism.Images m))
            (\<lambda>images. Inr (Some \<lparr>KustomizePromotionMechanism.Images = images\<rparr>)))"

definition FromHelmImageUpdateProto :: "pb_HelmImageUpdate option \<Rightarrow> HelmImageUpdate option" where
  "FromHelmImageUpdateProto u =
     (case u of
        None \<Rightarrow> None
      | Some u \<Rightarrow>
          Some \<lparr>HelmImageUpdate.Image = GetString (pb_HelmImageUpdate.Image u),
                HelmImageUpdate.ValuesFilePath = GetString (pb_HelmImageUpdate.ValuesFilePath u),
                HelmImageUpdate.Key = GetString (pb_HelmImageUpdate.Key u),
                HelmImageUpdate.Value = GetString (pb_HelmImageUpdate.Value u)\<rparr>)"

definition FromHelmChartDependencyUpdateProto ::
  "pb_HelmChartDependencyUpdate option \<Rightarrow> HelmChartDependencyUpdate option" where
  "FromHelmChartDependencyUpdateProto u =
     (case u of
        None \<Rightarrow> None
      | Some u \<Rightarrow>
          Some \<lparr>HelmChartDependencyUpdate.RegistryURL =
                  GetString (pb_HelmChartDependencyUpdate.RegistryURL u),
                HelmChartDependencyUpdate.Name = GetString (pb_HelmChartDependencyUpdate.Name u),
                HelmChartDependencyUpdate.ChartPath =
                  GetString (pb_HelmChartDependencyUpdate.ChartPath u)\<rparr>)"

definition FromHelmPromotionMechanismProto ::
  "pb_HelmPromotionMechanism option \<Rightarrow> panic + HelmPromotionMechanism option" where
  "FromHelmPromotionMechanismProto m =
     (case m of
        None \<Rightarrow> Inr None
      | Some m \<Rightarrow>
          andThen (convertEach (\<lambda>image. Inr (FromHelmImageUpdateProto image))
                     (pb_HelmPromotionMechanism.Images m))
            (\<lambda>images.
          andThen (convertEach (\<lambda>chart. Inr (FromHelmChartDependencyUpdateProto chart))
                     (pb_HelmPromotionMechanism.Charts m))
            (\<lambda>charts.
          Inr (Some \<lparr>HelmPromotionMechanism.Images = images,
                      HelmPromotionMechanism.Charts = charts\<rparr>))))"

definition FromGitRepoUpdateProto :: "pb_GitRepoUpdate option \<Rightarrow> panic + GitRepoUpdate option" where
  "FromGitRepoUpdateProto u =
     (case u of
        None \<Rightarrow> Inr None
      | Some u \<Rightarrow>
          andThen (FromKustomizePromotionMechanismProto (pb_GitRepoUpdate.Kustomize u))
            (\<lambda>kustomize.
          andThen (FromHelmPromotionMechanismProto (pb_GitRepoUpdate.Helm u))
            (\<lambda>helm.
          Inr (Some \<lparr>GitRepoUpdate.RepoURL = GetString (pb_GitRepoUpdate.RepoURL u),
                      GitRepoUpdate.ReadBranch = GetString (pb_GitRepoUpdate.ReadBranch u),
                      GitRepoUpdate.WriteBranch = GetString (pb_GitRepoUpdate.WriteBranch u),
                      GitRepoUpdate.Bookkeeper =
                        FromBookkeeperPromotionMechanismProto (pb_GitRepoUpdate.Bookkeeper u),
                      GitRepoUpdate.Kustomize = kustomize,
                      GitRepoUpdate.Helm = helm\<rparr>))))"

definition FromArgoCDKustomizeProto :: "pb_ArgoCDKustomize option \<Rightarrow> ArgoCDKustomize option" where
  "FromArgoCDKustomizeProto k =
     (case k of
        None \<Rightarrow> None
      | Some k \<Rightarrow> Some \<lparr>ArgoCDKustomize.Images = pb_ArgoCDKustomize.Images k\<rparr>)"

definition FromArgoCDHelmImageUpdateProto ::
  "pb_ArgoCDHelmImageUpdate option \<Rightarrow> ArgoCDHelmImageUpdate option" where
  "FromArgoCDHelmImageUpdateProto u =
     (case u of
        None \<Rightarrow> None
      | Some u \<Rightarrow>
          Some \<lparr>ArgoCDHelmImageUpdate.Image = GetString (pb_ArgoCDHelmImageUpdate.Image u),
                ArgoCDHelmImageUpdate.Key = GetString (pb_ArgoCDHelmImageUpdate.Key u),
                ArgoCDHelmImageUpdate.Value = GetString (pb_ArgoCDHelmImageUpdate.Value u)\<rparr>)"

definition FromArgoCDHelm :: "pb_ArgoCDHelm option \<Rightarrow> panic + ArgoCDHelm option" where
  "FromArgoCDHelm h =
     (case h of
        None \<Rightarrow> Inr None
      | Some h \<Rightarrow>
          andThen (convertEach (\<lambda>image. Inr (FromArgoCDHelmImageUpdateProto image))
                     (pb_ArgoCDHelm.Images h))
            (\<lambda>images. Inr (Some \<lparr>ArgoCDHelm.Images = images\<rparr>)))"

definition FromArgoCDSourceUpdateProto ::
  "pb_ArgoCDSourceUpdate option \<Rightarrow> panic + ArgoCDSourceUpdate option" where
  "FromArgoCDSourceUpdateProto u =
     (case u of
        None \<Rightarrow> Inr None
      | Some u \<Rightarrow>
          andThen (FromArgoCDHelm (pb_ArgoCDSourceUpdate.Helm u))
            (\<lambda>helm.
          Inr (Some \<lparr>ArgoCDSourceUpdate.RepoURL = GetString (pb_ArgoCDSourceUpdate.RepoURL u),
                      ArgoCDSourceUpdate.Chart = GetString (pb_ArgoCDSourceUpdate.Chart u),
                      ArgoCDSourceUpdate.UpdateTargetRevision =
                        GetBool (pb_ArgoCDSourceUpdate.UpdateTargetRevision u),
                      ArgoCDSourceUpdate.Kustomize =
                        FromArgoCDKustomizeProto (pb_ArgoCDSourceUpdate.Kustomize u),
                      ArgoCDSourceUpdate.Helm = helm\<rparr>)))"

definition FromArgoCDAppUpdatesProto :: "pb_ArgoCDAppUpdate option \<Rightarrow> panic + ArgoCDAppUpdate option" where
  "FromArgoCDAppUpdatesProto u =
     (case u of
        None \<Rightarrow> Inr None
      | Some u \<Rightarrow>
          andThen (convertEach FromArgoCDSourceUpdateProto (pb_ArgoCDAppUpdate.SourceUpdates u))
            (\<lambda>sourceUpdates.
          Inr (Some \<lparr>ArgoCDAppUpdate.AppName = GetString (pb_ArgoCDAppUpdate.AppName u),
                      ArgoCDAppUpdate.AppNamespace = GetString (pb_ArgoCDAppUpdate.AppNamespace u),
                      ArgoCDAppUpdate.SourceUpdates = sourceUpdates\<rparr>)))"

definition FromPromotionMechanismsProto ::
  "pb_PromotionMechanisms option \<Rightarrow> panic + PromotionMechanisms option" where
  "FromPromotionMechanismsProto m =
     (case m of
        None \<Rightarrow> Inr None
      | Some m \<Rightarrow>
          andThen (convertEach FromGitRepoUpdateProto (pb_PromotionMechanisms.GitRepoUpdates m))
            (\<lambda>gitUpdates.
          andThen (convertEach FromArgoCDAppUpdatesProto (pb_PromotionMechanisms.ArgoCDAppUpdates m))
            (\<lambda>argoUpdates.
          Inr (Some \<lparr>PromotionMechanisms.GitRepoUpdates = gitUpdates,
                      PromotionMechanisms.ArgoCDAppUpdates = argoUpdates\<rparr>))))"

text \<open>
  \<^verbatim>\<open>FromStageSpecProto\<close> has no guard: its getters give nil on a nil receiver, and it
  always returns a pointer to a new \<^verbatim>\<open>StageSpec\<close>, unless a converter it calls panics.
\<close>

definition FromStageSpecProto :: "pb_StageSpec option \<Rightarrow> panic + StageSpec option" where
  "FromStageSpecProto s =
     andThen (FromSubscriptionsProto
                (case s of None \<Rightarrow> None | Some s \<Rightarrow> pb_StageSpec.Subscriptions s))
       (\<lambda>subscriptions.
     andThen (FromPromotionMechanismsProto
                (case s of None \<Rightarrow> None | Some s \<Rightarrow> pb_StageSpec.PromotionMechanisms s))
       (\<lambda>promotionMechanisms.
     Inr (Some \<lparr>StageSpec.Subscriptions = subscriptions,
                 StageSpec.PromotionMechanisms = promotionMechanisms\<rparr>)))"

definition FromPromotionSpecProto :: "pb_PromotionSpec option \<Rightarrow> PromotionSpec option" where
  "FromPromotionSpecProto s =
     (case s of
        None \<Rightarrow> None
      | Some s \<Rightarrow>
          Some \<lparr>PromotionSpec.Stage = GetString (pb_PromotionSpec.Stage s),
                PromotionSpec.State = GetString (pb_PromotionSpec.State s)\<rparr>)"

definition FromPromotionStatusProto :: "pb_PromotionStatus option \<Rightarrow> PromotionStatus option" where
  "FromPromotionStatusProto s =
     (case s of
        None \<Rightarrow> None
      | Some s \<Rightarrow>
          Some \<lparr>PromotionStatus.Phase = GetString (pb_PromotionStatus.Phase s),
                PromotionStatus.Error = GetString (pb_PromotionStatus.Error s)\<rparr>)"

text \<open>
  \<^verbatim>\<open>FromPromotionProto\<close>. Where it does not assign them, \<^verbatim>\<open>status\<close> and
  \<^verbatim>\<open>objectMeta\<close> keep their zero values. It dereferences the converted status behind a
  nil check of the status. The text of \<^verbatim>\<open>GroupVersion\<close>, a variable of the API package,
  is the parameter \<open>groupVersion\<close>.
\<close>

definition FromPromotionProto :: "string \<Rightarrow> pb_Promotion option \<Rightarrow> panic + Promotion option" where
  "FromPromotionProto groupVersion p =
     (case p of
        None \<Rightarrow> Inr None
      | Some p \<Rightarrow>
          andThen
            (case pb_Promotion.Status p of
               None \<Rightarrow> Inr \<lparr>PromotionStatus.Phase = '''', PromotionStatus.Error = ''''\<rparr>
             | Some s \<Rightarrow> deref (FromPromotionStatusProto (Some s)))
            (\<lambda>status.
          (let objectMeta =
                 (case pb_Promotion.Metadata p of
                    None \<Rightarrow> \<lparr>ObjectMeta.Namespace = '''', ObjectMeta.Name = ''''\<rparr>
                  | Some m \<Rightarrow> m)
           in Inr (Some \<lparr>Promotion.TypeMeta = \<lparr>TypeMeta.APIVersion = groupVersion,
                                                TypeMeta.Kind = ''Promotion''\<rparr>,
                          Promotion.ObjectMeta = objectMeta,
                          Promotion.Spec = FromPromotionSpecProto (pb_Promotion.Spec p),
                          Promotion.Status = status\<rparr>))))"

section \<open>Objects and events of the promotion watches\<close>

text \<open>
  Modelled from the spec: \<^verbatim>\<open>PromotionPhase.IsTerminal\<close>, declared in the API package.
  The spec's state machine is Pending, Running, then the terminal set
  Succeeded, Failed, Errored.
\<close>

definition IsTerminal :: "PromotionPhase \<Rightarrow> bool" where
  "IsTerminal p = (p = ''Succeeded'' \<or> p = ''Failed'' \<or> p = ''Errored'')"

text \<open>
  A \<^verbatim>\<open>client.Object\<close> carried by a watch event: a Promotion, or an object of
  another kind (an Argo CD Application), of which only the metadata is read.
\<close>

datatype object = PromotionObject Promotion | OtherObject ObjectMeta

fun GetNamespace :: "object \<Rightarrow> string" where
  "GetNamespace (PromotionObject p) = ObjectMeta.Namespace (ObjectMeta p)"
| "GetNamespace (OtherObject m) = ObjectMeta.Namespace m"

fun GetName :: "object \<Rightarrow> string" where
  "GetName (PromotionObject p) = ObjectMeta.Name (ObjectMeta p)"
| "GetName (OtherObject m) = ObjectMeta.Name m"

record CreateEvent =
  Object :: "object option"

record DeleteEvent =
  Object :: "object option"

record GenericEvent =
  Object :: "object option"

record UpdateEvent =
  ObjectOld :: "object option"
  ObjectNew :: "object option"

section \<open>The registry, the work queue and the log\<close>

text \<open>
  \<^verbatim>\<open>promoQueues\<close>: the two Go maps the handlers read. A pending queue is held as
  the list of its entries in priority order, highest priority first.
\<close>

record promoQueues =
  activePromoByStage :: "NamespacedName \<rightharpoonup> string"
  pendingPromoQueuesByStage :: "NamespacedName \<rightharpoonup> NamespacedName list"

text \<open>Reading a Go map of strings: a missing key reads as the empty string.\<close>

definition activePromo :: "promoQueues \<Rightarrow> NamespacedName \<Rightarrow> string" where
  "activePromo q stageKey = (case activePromoByStage q stageKey of None \<Rightarrow> '''' | Some v \<Rightarrow> v)"

text \<open>
  Modelled from the spec: the priority queue's \<^verbatim>\<open>Peek\<close> and \<^verbatim>\<open>Pop\<close>, whose code is
  in the registry's package. \<^verbatim>\<open>Peek\<close> reads the highest-priority element without
  removing it, \<^verbatim>\<open>Pop\<close> removes and returns it; both give nil on an empty queue.
\<close>

definition Peek :: "'a list \<Rightarrow> 'a option" where
  "Peek pq = (case pq of [] \<Rightarrow> None | x # _ \<Rightarrow> Some x)"

definition Pop :: "'a list \<Rightarrow> 'a option \<times> 'a list" where
  "Pop pq = (case pq of [] \<Rightarrow> (None, []) | x # rest \<Rightarrow> (Some x, rest))"

text \<open>
  Modelled from the spec: \<^verbatim>\<open>promoQueues.conclude\<close>, which clears the active entry of
  the stage only if it currently equals the concluded Promotion's name.
\<close>

definition conclude :: "promoQueues \<Rightarrow> NamespacedName \<Rightarrow> string \<Rightarrow> promoQueues" where
  "conclude q stageKey promoName =
     (if activePromo q stageKey = promoName
      then q\<lparr>activePromoByStage := (activePromoByStage q)(stageKey := None)\<rparr>
      else q)"

text \<open>
  The work queue is the trace of the calls made on it, each with the
  \<^verbatim>\<open>reconcile.Request\<close>'s namespaced name; the logger is the trace of its entries
  (level, format string, and the fields of a structured entry).
\<close>

datatype wqCall = Add NamespacedName | AddRateLimited NamespacedName

datatype logEntry = Errorf string | Debug "(string \<times> string) list" string

record world =
  pqs :: promoQueues
  wq :: "wqCall list"
  logs :: "logEntry list"

text \<open>
  A handler either returns or panics on a nil pointer; what it did before the panic
  stays done, so both outcomes come with the state reached.
\<close>

datatype outcome = Returned | Panicked

section \<open>EnqueueHighestPriorityPromotionHandler\<close>

text \<open>
  The \<^verbatim>\<open>for\<close> loop of \<^verbatim>\<open>enqueueNext\<close>, on the queue \<^verbatim>\<open>pq\<close> found for the stage.
  \<^verbatim>\<open>getPromotion\<close> is \<^verbatim>\<open>kargoapi.GetPromotion\<close> on the handler's client: an error,
  nil for a Promotion that is not found, or the Promotion.
\<close>

function enqueueNextLoop ::
  "(NamespacedName \<Rightarrow> string + Promotion option) \<Rightarrow> NamespacedName list \<Rightarrow> world
     \<Rightarrow> outcome \<times> NamespacedName list \<times> world" where
  "enqueueNextLoop getPromotion pq w =
     (case Peek pq of
        None \<Rightarrow> (Returned, pq, w)
      | Some first \<Rightarrow>
         (let firstKey = \<lparr>NamespacedName.Namespace = NamespacedName.Namespace first,
                          Name = NamespacedName.Name first\<rparr>
          in case getPromotion firstKey of
               Inl err \<Rightarrow>
                 (Returned, pq,
                  w\<lparr>logs := logs w @
                    [Errorf ''Failed to get next highest priority Promotion (%s) for enqueue: %v'']\<rparr>)
             | Inr None \<Rightarrow> enqueueNextLoop getPromotion (snd (Pop pq)) w
             | Inr (Some promo) \<Rightarrow>
                 if IsTerminal (Phase (Status promo))
                 then enqueueNextLoop getPromotion (snd (Pop pq)) w
                 else
                   (let w1 = w\<lparr>wq := wq w @
                          [AddRateLimited
                             \<lparr>NamespacedName.Namespace = ObjectMeta.Namespace (ObjectMeta promo),
                              Name = ObjectMeta.Name (ObjectMeta promo)\<rparr>]\<rparr>
                    in case Spec promo of
                         None \<Rightarrow> (Panicked, pq, w1)
                       | Some spec \<Rightarrow>
                           (Returned, pq,
                            w1\<lparr>logs := logs w1 @
                              [Debug [(''promotion'', ObjectMeta.Name (ObjectMeta promo)),
                                      (''namespace'', ObjectMeta.Namespace (ObjectMeta promo)),
                                      (''stage'', Stage spec)]
                                 ''enqueued promo'']\<rparr>))))"
  by pat_completeness auto
termination
  by (relation "measure (\<lambda>(g, pq, w). length pq)")
     (auto simp: Peek_def Pop_def split: list.splits)

declare enqueueNextLoop.simps [simp del]

text \<open>
  \<^verbatim>\<open>enqueueNext\<close> once it has found no active Promotion: the lookup of the
  stage's pending queue, and the loop. The queue is reached through a pointer, so what
  the loop popped is popped in the registry's map.
\<close>

definition examinePending ::
  "(NamespacedName \<Rightarrow> string + Promotion option) \<Rightarrow> NamespacedName \<Rightarrow> world
     \<Rightarrow> outcome \<times> world" where
  "examinePending getPromotion stageKey w =
     (case pendingPromoQueuesByStage (pqs w) stageKey of
        None \<Rightarrow> (Returned, w)
      | Some pq \<Rightarrow>
          (case enqueueNextLoop getPromotion pq w of
             (out, pq', w') \<Rightarrow>
               (out,
                w'\<lparr>pqs := (pqs w')\<lparr>pendingPromoQueuesByStage :=
                   (pendingPromoQueuesByStage (pqs w'))(stageKey \<mapsto> pq')\<rparr>\<rparr>)))"

text \<open>\<^verbatim>\<open>enqueueNext\<close>: the guard on the stage's active Promotion, then the above.\<close>

definition enqueueNext ::
  "(NamespacedName \<Rightarrow> string + Promotion option) \<Rightarrow> NamespacedName \<Rightarrow> world
     \<Rightarrow> outcome \<times> world" where
  "enqueueNext getPromotion stageKey w =
     (if activePromo (pqs w) stageKey \<noteq> '''' then (Returned, w)
      else examinePending getPromotion stageKey w)"

definition EnqueueHighestPriorityPromotionHandler_Create ::
  "CreateEvent \<Rightarrow> world \<Rightarrow> outcome \<times> world" where
  "EnqueueHighestPriorityPromotionHandler_Create evt w = (Returned, w)"

definition EnqueueHighestPriorityPromotionHandler_Delete ::
  "(NamespacedName \<Rightarrow> string + Promotion option) \<Rightarrow> DeleteEvent \<Rightarrow> world
     \<Rightarrow> outcome \<times> world" where
  "EnqueueHighestPriorityPromotionHandler_Delete getPromotion evt w =
     (case DeleteEvent.Object evt of
        Some (PromotionObject promo) \<Rightarrow>
          (case Spec promo of
             None \<Rightarrow> (Panicked, w)
           | Some spec \<Rightarrow>
               (let stageKey = \<lparr>NamespacedName.Namespace = ObjectMeta.Namespace (ObjectMeta promo),
                                Name = Stage spec\<rparr>
                in enqueueNext getPromotion stageKey
                     (w\<lparr>pqs := conclude (pqs w) stageKey (ObjectMeta.Name (ObjectMeta promo))\<rparr>)))
      | _ \<Rightarrow> (Returned, w))"

definition EnqueueHighestPriorityPromotionHandler_Generic ::
  "GenericEvent \<Rightarrow> world \<Rightarrow> outcome \<times> world" where
  "EnqueueHighestPriorityPromotionHandler_Generic evt w = (Returned, w)"


section \<open>UpdatedArgoCDAppHandler\<close>

text \<open>
  The handler's client is its \<^verbatim>\<open>List\<close> of Promotions under the options it is given;
  a label selector is held as its text. The name of the field index is a constant of
  the kubeclient package, taken as the parameter \<open>indexField\<close>.
\<close>

type_synonym Selector = string

record ListOptions =
  FieldSelector :: "string \<times> string"
  LabelSelector :: Selector

record UpdatedArgoCDAppHandler =
  kargoClient :: "ListOptions \<Rightarrow> string + Promotion list"
  shardSelector :: Selector

definition UpdatedArgoCDAppHandler_Create :: "CreateEvent \<Rightarrow> world \<Rightarrow> outcome \<times> world" where
  "UpdatedArgoCDAppHandler_Create evt w = (Returned, w)"

definition UpdatedArgoCDAppHandler_Delete :: "DeleteEvent \<Rightarrow> world \<Rightarrow> outcome \<times> world" where
  "UpdatedArgoCDAppHandler_Delete evt w = (Returned, w)"

definition UpdatedArgoCDAppHandler_Generic :: "GenericEvent \<Rightarrow> world \<Rightarrow> outcome \<times> world" where
  "UpdatedArgoCDAppHandler_Generic evt w = (Returned, w)"

text \<open>The \<^verbatim>\<open>range\<close> loop over the listed Promotions: one \<^verbatim>\<open>Add\<close> and one log entry each.\<close>

fun enqueueListed :: "string \<Rightarrow> Promotion list \<Rightarrow> world \<Rightarrow> world" where
  "enqueueListed app [] w = w"
| "enqueueListed app (promotion # items) w =
     enqueueListed app items
       (w\<lparr>wq := wq w @
            [Add \<lparr>NamespacedName.Namespace = ObjectMeta.Namespace (ObjectMeta promotion),
                  Name = ObjectMeta.Name (ObjectMeta promotion)\<rparr>],
          logs := logs w @
            [Debug [(''namespace'', ObjectMeta.Namespace (ObjectMeta promotion)),
                    (''promotion'', ObjectMeta.Name (ObjectMeta promotion)),
                    (''app'', app)]
               ''enqueued Promotion for reconciliation'']\<rparr>)"

definition UpdatedArgoCDAppHandler_Update ::
  "string \<Rightarrow> UpdatedArgoCDAppHandler \<Rightarrow> UpdateEvent \<Rightarrow> world \<Rightarrow> outcome \<times> world" where
  "UpdatedArgoCDAppHandler_Update indexField u e w =
     (case (ObjectNew e, ObjectOld e) of
        (Some new, Some old) \<Rightarrow>
          (case kargoClient u
                  \<lparr>FieldSelector = (indexField, GetNamespace new @ '':'' @ GetName new),
                   LabelSelector = shardSelector u\<rparr> of
             Inl err \<Rightarrow>
               (Returned,
                w\<lparr>logs := logs w @
                  [Errorf ''error listing Promotions for Application %q in namespace %q: %s'']\<rparr>)
           | Inr items \<Rightarrow> (Returned, enqueueListed (GetName new) items w))
      | _ \<Rightarrow>
          (Returned,
           w\<lparr>logs := logs w @ [Errorf ''Update event has no new or old object to update: %v'']\<rparr>))"

section \<open>Chart selection\<close>

text \<open>
  \<^verbatim>\<open>selectCharts\<close> of the warehouses reconciler is read here through its test,
  \<^verbatim>\<open>TestSelectCharts\<close>, which gives its collaborators, its argument and its results; the
  function itself is not among the source files. The API types are those the test
  builds, with the suffix \<open>_wh\<close> where the converters have a type of the same name.
\<close>

record ChartSubscription_wh =
  RepoURL :: string
  Name :: string
  SemverConstraint :: string

record RepoSubscription =
  Chart :: "ChartSubscription_wh option"

record Chart_wh =
  RepoURL :: string
  Name :: string
  Version :: string

record Credentials =
  Username :: string
  Password :: string

text \<open>
  A Go error: a new one with its message (\<^verbatim>\<open>errors.New\<close>, \<^verbatim>\<open>errors.Errorf\<close>), or one
  that wraps a cause under a context (\<^verbatim>\<open>errors.Wrapf\<close>). Its text puts the context
  before the text of the cause. \<^verbatim>\<open>require.ErrorContains\<close> looks for a text inside the
  text of an error.
\<close>

datatype goError = New string | Wrapf goError string

fun ErrorText :: "goError \<Rightarrow> string" where
  "ErrorText (New message) = message"
| "ErrorText (Wrapf err format) = format @ '': '' @ ErrorText err"

fun Cause :: "goError \<Rightarrow> goError option" where
  "Cause (New message) = None"
| "Cause (Wrapf err format) = Some err"

definition ErrorContains :: "goError \<Rightarrow> string \<Rightarrow> bool" where
  "ErrorContains err contains = sublist contains (ErrorText err)"

text \<open>
  Modelled from the spec: \<^verbatim>\<open>reconciler.selectCharts\<close>, which is not under the source
  files. For each chart subscription, in order, it looks the credentials up, then searches
  for the latest version; an error of either ends the selection and is returned wrapped
  with its context, and an empty version with no error is found by a check of its own
  and returned as a new error, that no suitable version was found. The spec gives each
  context up to an ellipsis, which stands for the chart: \<open>chartIdentity\<close> is that text
  for a subscription, whatever the code prints there. \<open>credentialsDB\<close> is
  \<^verbatim>\<open>credentialsDB.Get\<close> on the namespace and the repository; \<open>selectChartVersionFn\<close>
  takes the repository, the name, the constraint and the credentials, nil when none were
  found. A Go pair of a value and an error is a pair whose error is \<open>None\<close> for nil.
\<close>

fun selectCharts ::
  "(ChartSubscription_wh \<Rightarrow> string)
     \<Rightarrow> (string \<Rightarrow> string \<Rightarrow> Credentials \<times> bool \<times> goError option)
     \<Rightarrow> (string \<Rightarrow> string \<Rightarrow> string \<Rightarrow> Credentials option \<Rightarrow> string \<times> goError option)
     \<Rightarrow> string \<Rightarrow> RepoSubscription list \<Rightarrow> goError + Chart_wh list" where
  "selectCharts chartIdentity credentialsDB selectChartVersionFn namespace [] = Inr []"
| "selectCharts chartIdentity credentialsDB selectChartVersionFn namespace (s # subs) =
     (case Chart s of
        None \<Rightarrow> selectCharts chartIdentity credentialsDB selectChartVersionFn namespace subs
      | Some sub \<Rightarrow>
          (case credentialsDB namespace (ChartSubscription_wh.RepoURL sub) of
             (creds, ok, Some err) \<Rightarrow>
               Inl (Wrapf err (''error obtaining credentials for chart'' @ chartIdentity sub))
           | (creds, ok, None) \<Rightarrow>
               (case selectChartVersionFn (ChartSubscription_wh.RepoURL sub)
                       (ChartSubscription_wh.Name sub) (ChartSubscription_wh.SemverConstraint sub)
                       (if ok then Some creds else None) of
                  (vers, Some err) \<Rightarrow>
                    Inl (Wrapf err
                           (''error searching for latest version of chart'' @ chartIdentity sub))
                | (vers, None) \<Rightarrow>
                    if vers = ''''
                    then Inl (New (''found no suitable version of chart'' @ chartIdentity sub))
                    else
                      (case selectCharts chartIdentity credentialsDB selectChartVersionFn
                              namespace subs of
                         Inl err \<Rightarrow> Inl err
                       | Inr charts \<Rightarrow>
                           Inr (\<lparr>Chart_wh.RepoURL = ChartSubscription_wh.RepoURL sub,
                                 Chart_wh.Name = ChartSubscription_wh.Name sub,
                                 Chart_wh.Version = vers\<rparr> # charts)))))"

section \<open>The vocabulary of the claims, and example data\<close>


text \<open>
  A queue entry is stale when the Promotion it names is not found or has a terminal
  phase, and valid when the Promotion is fetched and its phase is not terminal. A fetch
  that fails makes the entry neither.
\<close>

definition isStale :: "(NamespacedName \<Rightarrow> string + Promotion option) \<Rightarrow> NamespacedName \<Rightarrow> bool" where
  "isStale getPromotion ref =
     (case getPromotion ref of
        Inl err \<Rightarrow> False
      | Inr None \<Rightarrow> True
      | Inr (Some promo) \<Rightarrow> IsTerminal (Phase (Status promo)))"

definition isValid :: "(NamespacedName \<Rightarrow> string + Promotion option) \<Rightarrow> NamespacedName \<Rightarrow> bool" where
  "isValid getPromotion ref =
     (case getPromotion ref of
        Inr (Some promo) \<Rightarrow> \<not> IsTerminal (Phase (Status promo))
      | _ \<Rightarrow> False)"

text \<open>What the client returns under a key, if anything, has that namespace and name.\<close>

definition fetchedUnderKey :: "(NamespacedName \<Rightarrow> string + Promotion option) \<Rightarrow> NamespacedName \<Rightarrow> bool" where
  "fetchedUnderKey getPromotion ref =
     (case getPromotion ref of
        Inr (Some promo) \<Rightarrow>
          ObjectMeta.Namespace (ObjectMeta promo) = NamespacedName.Namespace ref \<and>
          ObjectMeta.Name (ObjectMeta promo) = NamespacedName.Name ref
      | _ \<Rightarrow> True)"

text \<open>
  Example data: the stage \<open>ns/s1\<close>, and a client for which \<open>p2\<close> is not found,
  \<open>p3\<close> has succeeded, \<open>p4\<close> is pending, and any other fetch fails.
\<close>

definition ex_stage :: NamespacedName where
  "ex_stage = \<lparr>NamespacedName.Namespace = ''ns'', Name = ''s1''\<rparr>"

definition ex_ref :: "string \<Rightarrow> NamespacedName" where
  "ex_ref n = \<lparr>NamespacedName.Namespace = ''ns'', Name = n\<rparr>"

definition ex_promotion :: "string \<Rightarrow> PromotionPhase \<Rightarrow> Promotion" where
  "ex_promotion n phase =
     \<lparr>TypeMeta = \<lparr>APIVersion = ''kargo.akuity.io/v1alpha1'', Kind = ''Promotion''\<rparr>,
      ObjectMeta = \<lparr>ObjectMeta.Namespace = ''ns'', Name = n\<rparr>,
      Spec = Some \<lparr>Stage = ''s1'', State = ''abc123''\<rparr>,
      Status = \<lparr>Phase = phase, Error = ''''\<rparr>\<rparr>"

definition ex_getPromotion :: "NamespacedName \<Rightarrow> string + Promotion option" where
  "ex_getPromotion ref =
     (if NamespacedName.Name ref = ''p2'' then Inr None
      else if NamespacedName.Name ref = ''p3'' then Inr (Some (ex_promotion ''p3'' ''Succeeded''))
      else if NamespacedName.Name ref = ''p4'' then Inr (Some (ex_promotion ''p4'' ''Pending''))
      else Inl ''informer cache not synced'')"

definition ex_world :: "(NamespacedName \<rightharpoonup> string) \<Rightarrow> NamespacedName list \<Rightarrow> world" where
  "ex_world active pending =
     \<lparr>pqs = \<lparr>activePromoByStage = active,
              pendingPromoQueuesByStage = [ex_stage \<mapsto> pending]\<rparr>,
      wq = [], logs = []\<rparr>"

definition ex_app :: object where
  "ex_app = OtherObject \<lparr>ObjectMeta.Namespace = ''argocd'', Name = ''guestbook''\<rparr>"

definition ex_handler :: UpdatedArgoCDAppHandler where
  "ex_handler =
     \<lparr>kargoClient =
        (\<lambda>opts. if FieldSelector opts = (''applications'', ''argocd:guestbook'')
                then Inr [ex_promotion ''p4'' ''Running'', ex_promotion ''p7'' ''Running'']
                else Inl ''index not found''),
      shardSelector = ''kargo.akuity.io/shard=main''\<rparr>"

text \<open>The outcomes of a converter, and the inputs for which it does not panic.\<close>

definition panics :: "panic + 'a \<Rightarrow> bool" where
  "panics r = (case r of Inl e \<Rightarrow> True | Inr v \<Rightarrow> False)"

text \<open>
  A repeated field has no nil element; \<open>nilOr\<close> and \<open>eachNonNil\<close> carry a condition
  through a pointer and through the elements of a slice of pointers. \<open>noNil_T\<close> says of
  a message of type \<open>T\<close> that no repeated message field a converter ranges over, in it or
  in a message under it, has a nil element.
\<close>

definition noNil :: "'a option list \<Rightarrow> bool" where
  "noNil xs = list_all (\<lambda>x. x \<noteq> None) xs"

definition nilOr :: "('a \<Rightarrow> bool) \<Rightarrow> 'a option \<Rightarrow> bool" where
  "nilOr P p = (case p of None \<Rightarrow> True | Some v \<Rightarrow> P v)"

definition eachNonNil :: "('a \<Rightarrow> bool) \<Rightarrow> 'a option list \<Rightarrow> bool" where
  "eachNonNil P xs = list_all (\<lambda>x. case x of None \<Rightarrow> False | Some v \<Rightarrow> P v) xs"

definition noNil_RepoSubscriptions :: "pb_RepoSubscriptions \<Rightarrow> bool" where
  "noNil_RepoSubscriptions s =
     (noNil (pb_RepoSubscriptions.Git s) \<and> noNil (pb_RepoSubscriptions.Images s)
      \<and> noNil (pb_RepoSubscriptions.Charts s))"

definition noNil_Subscriptions :: "pb_Subscriptions \<Rightarrow> bool" where
  "noNil_Subscriptions s =
     (noNil (pb_Subscriptions.UpstreamStages s)
      \<and> nilOr noNil_RepoSubscriptions (pb_Subscriptions.Repos s))"

definition noNil_KustomizePromotionMechanism :: "pb_KustomizePromotionMechanism \<Rightarrow> bool" where
  "noNil_KustomizePromotionMechanism m = noNil (pb_KustomizePromotionMechanism.Images m)"

definition noNil_HelmPromotionMechanism :: "pb_HelmPromotionMechanism \<Rightarrow> bool" where
  "noNil_HelmPromotionMechanism m =
     (noNil (pb_HelmPromotionMechanism.Images m) \<and> noNil (pb_HelmPromotionMechanism.Charts m))"

definition noNil_GitRepoUpdate :: "pb_GitRepoUpdate \<Rightarrow> bool" where
  "noNil_GitRepoUpdate u =
     (nilOr noNil_KustomizePromotionMechanism (pb_GitRepoUpdate.Kustomize u)
      \<and> nilOr noNil_HelmPromotionMechanism (pb_GitRepoUpdate.Helm u))"

definition noNil_ArgoCDHelm :: "pb_ArgoCDHelm \<Rightarrow> bool" where
  "noNil_ArgoCDHelm h = noNil (pb_ArgoCDHelm.Images h)"

definition noNil_ArgoCDSourceUpdate :: "pb_ArgoCDSourceUpdate \<Rightarrow> bool" where
  "noNil_ArgoCDSourceUpdate u = nilOr noNil_ArgoCDHelm (pb_ArgoCDSourceUpdate.Helm u)"

definition noNil_ArgoCDAppUpdate :: "pb_ArgoCDAppUpdate \<Rightarrow> bool" where
  "noNil_ArgoCDAppUpdate u = eachNonNil noNil_ArgoCDSourceUpdate (pb_ArgoCDAppUpdate.SourceUpdates u)"

definition noNil_PromotionMechanisms :: "pb_PromotionMechanisms \<Rightarrow> bool" where
  "noNil_PromotionMechanisms m =
     (eachNonNil noNil_GitRepoUpdate (pb_PromotionMechanisms.GitRepoUpdates m)
      \<and> eachNonNil noNil_ArgoCDAppUpdate (pb_PromotionMechanisms.ArgoCDAppUpdates m))"

text \<open>
  What a call of a converter does, and what it does under a nil guard when \<open>ok\<close> is the
  condition for its dereferences to find no nil.
\<close>

datatype conversion = ReturnsNil | ReturnsNonNil | Panics

definition outcomeOf :: "panic + 'a option \<Rightarrow> conversion" where
  "outcomeOf r = (case r of Inl e \<Rightarrow> Panics | Inr None \<Rightarrow> ReturnsNil | Inr (Some v) \<Rightarrow> ReturnsNonNil)"

definition guarded :: "('a \<Rightarrow> bool) \<Rightarrow> 'a option \<Rightarrow> conversion" where
  "guarded ok p = (case p of None \<Rightarrow> ReturnsNil | Some v \<Rightarrow> if ok v then ReturnsNonNil else Panics)"

definition ex_subscriptions :: "pb_StageSubscription option list \<Rightarrow> pb_Subscriptions" where
  "ex_subscriptions upstream =
     \<lparr>pb_Subscriptions.Repos =
        Some \<lparr>pb_RepoSubscriptions.Git =
                 [Some \<lparr>pb_GitSubscription.RepoURL = Some ''https://github.com/example/repo'',
                        pb_GitSubscription.Branch = None\<rparr>],
              pb_RepoSubscriptions.Images = [],
              pb_RepoSubscriptions.Charts = []\<rparr>,
      pb_Subscriptions.UpstreamStages = upstream\<rparr>"

text \<open>
  A subscription is selected without failure: it is not a chart subscription, or its
  credentials lookup and its version search return no error and the version is not empty.
\<close>

definition selects ::
  "(string \<Rightarrow> string \<Rightarrow> Credentials \<times> bool \<times> goError option)
     \<Rightarrow> (string \<Rightarrow> string \<Rightarrow> string \<Rightarrow> Credentials option \<Rightarrow> string \<times> goError option)
     \<Rightarrow> string \<Rightarrow> RepoSubscription \<Rightarrow> bool" where
  "selects credentialsDB selectChartVersionFn namespace s =
     (case Chart s of
        None \<Rightarrow> True
      | Some sub \<Rightarrow>
          (case credentialsDB namespace (ChartSubscription_wh.RepoURL sub) of
             (creds, ok, Some err) \<Rightarrow> False
           | (creds, ok, None) \<Rightarrow>
               (case selectChartVersionFn (ChartSubscription_wh.RepoURL sub)
                       (ChartSubscription_wh.Name sub) (ChartSubscription_wh.SemverConstraint sub)
                       (if ok then Some creds else None) of
                  (vers, Some err) \<Rightarrow> False
                | (vers, None) \<Rightarrow> vers \<noteq> '''')))"

definition ex_chartSub :: "string \<Rightarrow> RepoSubscription" where
  "ex_chartSub name =
     \<lparr>Chart = Some \<lparr>ChartSubscription_wh.RepoURL = ''fake-url'',
                    ChartSubscription_wh.Name = name,
                    ChartSubscription_wh.SemverConstraint = ''''\<rparr>\<rparr>"

definition ex_identity :: "ChartSubscription_wh \<Rightarrow> string" where
  "ex_identity sub =
     '' '' @ ChartSubscription_wh.Name sub @ '' in repository '' @ ChartSubscription_wh.RepoURL sub"

definition ex_noCredentials ::
  "goError option \<Rightarrow> string \<Rightarrow> string \<Rightarrow> Credentials \<times> bool \<times> goError option" where
  "ex_noCredentials err namespace repoURL = (\<lparr>Username = '''', Password = ''''\<rparr>, False, err)"

definition ex_versions :: "string \<Rightarrow> string \<Rightarrow> string \<Rightarrow> Credentials option \<Rightarrow> string \<times> goError option" where
  "ex_versions repoURL name constraint creds =
     (if name = ''fake-chart'' then (''1.0.0'', None)
      else if name = ''empty-chart'' then ('''', None)
      else ('''', Some (New ''something went wrong'')))"

section \<open>Lemmas on the model\<close>

lemma firstKey_eq: "\<lparr>NamespacedName.Namespace = NamespacedName.Namespace first, Name = NamespacedName.Name first\<rparr> = first"
  by simp

lemma loop_empty: "enqueueNextLoop g [] w = (Returned, [], w)"
  by (simp add: enqueueNextLoop.simps Peek_def)

lemma loop_cons:
  "enqueueNextLoop g (first # rest) w =
     (case g first of
        Inl err \<Rightarrow>
          (Returned, first # rest,
           w\<lparr>logs := logs w @
             [Errorf ''Failed to get next highest priority Promotion (%s) for enqueue: %v'']\<rparr>)
      | Inr None \<Rightarrow> enqueueNextLoop g rest w
      | Inr (Some promo) \<Rightarrow>
          if IsTerminal (Phase (Status promo))
          then enqueueNextLoop g rest w
          else
            (let w1 = w\<lparr>wq := wq w @
                   [AddRateLimited
                      \<lparr>NamespacedName.Namespace = ObjectMeta.Namespace (ObjectMeta promo),
                       Name = ObjectMeta.Name (ObjectMeta promo)\<rparr>]\<rparr>
             in case Spec promo of
                  None \<Rightarrow> (Panicked, first # rest, w1)
                | Some spec \<Rightarrow>
                    (Returned, first # rest,
                     w1\<lparr>logs := logs w1 @
                       [Debug [(''promotion'', ObjectMeta.Name (ObjectMeta promo)),
                               (''namespace'', ObjectMeta.Namespace (ObjectMeta promo)),
                               (''stage'', Stage spec)]
                          ''enqueued promo'']\<rparr>)))"
  by (subst enqueueNextLoop.simps)
     (simp add: Peek_def Pop_def firstKey_eq split: sum.split option.split)

lemma loop_stale: "isStale g x \<Longrightarrow> enqueueNextLoop g (x # rest) w = enqueueNextLoop g rest w"
  by (simp add: loop_cons isStale_def split: sum.splits option.splits)

lemma loop_stale_prefix:
  "list_all (isStale g) stale \<Longrightarrow> enqueueNextLoop g (stale @ rest) w = enqueueNextLoop g rest w"
  by (induction stale) (simp_all add: loop_stale)

lemma loop_error:
  "g c = Inl err \<Longrightarrow> enqueueNextLoop g (c # rest) w =
     (Returned, c # rest,
      w\<lparr>logs := logs w @ [Errorf ''Failed to get next highest priority Promotion (%s) for enqueue: %v'']\<rparr>)"
  by (simp add: loop_cons)

lemma loop_valid:
  "g v = Inr (Some promo) \<Longrightarrow> \<not> IsTerminal (Phase (Status promo)) \<Longrightarrow>
   enqueueNextLoop g (v # rest) w =
     (let w1 = w\<lparr>wq := wq w @
                [AddRateLimited
                   \<lparr>NamespacedName.Namespace = ObjectMeta.Namespace (ObjectMeta promo),
                    Name = ObjectMeta.Name (ObjectMeta promo)\<rparr>]\<rparr>
      in case Spec promo of
           None \<Rightarrow> (Panicked, v # rest, w1)
         | Some spec \<Rightarrow>
             (Returned, v # rest,
              w1\<lparr>logs := logs w1 @
                [Debug [(''promotion'', ObjectMeta.Name (ObjectMeta promo)),
                        (''namespace'', ObjectMeta.Namespace (ObjectMeta promo)),
                        (''stage'', Stage spec)]
                   ''enqueued promo'']\<rparr>))"
  by (simp add: loop_cons)

lemma pending_upd_same:
  "pendingPromoQueuesByStage (pqs w) k = Some pq \<Longrightarrow>
   w\<lparr>pqs := (pqs w)\<lparr>pendingPromoQueuesByStage := (pendingPromoQueuesByStage (pqs w))(k \<mapsto> pq)\<rparr>\<rparr> = w"
  by (simp add: map_upd_triv)

lemmas ex_defs = ex_stage_def ex_ref_def ex_promotion_def ex_getPromotion_def ex_world_def

lemma isValid_obtain:
  assumes "isValid g v"
  obtains promo where "g v = Inr (Some promo)" and "\<not> IsTerminal (Phase (Status promo))"
  using assms by (auto simp: isValid_def split: sum.splits option.splits)

lemma examinePending_stale_prefix:
  assumes "pendingPromoQueuesByStage (pqs w) stageKey = Some (stale @ rest)"
    and "list_all (isStale g) stale"
  shows "examinePending g stageKey w =
           (case enqueueNextLoop g rest w of
              (out, pq', w') \<Rightarrow>
                (out, w'\<lparr>pqs := (pqs w')\<lparr>pendingPromoQueuesByStage :=
                        (pendingPromoQueuesByStage (pqs w'))(stageKey \<mapsto> pq')\<rparr>\<rparr>))"
  using assms by (simp add: examinePending_def loop_stale_prefix)

lemma enqueueNext_fetch_error:
  assumes "activePromo (pqs w) stageKey = ''''"
    and "pendingPromoQueuesByStage (pqs w) stageKey = Some (stale @ c # rest)"
    and "list_all (isStale g) stale"
    and "g c = Inl err"
  shows "enqueueNext g stageKey w =
           (Returned,
            w\<lparr>pqs := (pqs w)\<lparr>pendingPromoQueuesByStage :=
                   (pendingPromoQueuesByStage (pqs w))(stageKey \<mapsto> c # rest)\<rparr>,
              logs := logs w @
                [Errorf ''Failed to get next highest priority Promotion (%s) for enqueue: %v'']\<rparr>)"
  using assms(1,4)
  by (simp add: enqueueNext_def examinePending_stale_prefix [OF assms(2,3)] loop_error)

lemma enqueueListed_effect:
  "wq (enqueueListed app items w) =
     wq w @ map (\<lambda>p. Add \<lparr>NamespacedName.Namespace = ObjectMeta.Namespace (ObjectMeta p),
                             Name = ObjectMeta.Name (ObjectMeta p)\<rparr>) items
   \<and> pqs (enqueueListed app items w) = pqs w"
  by (induction items arbitrary: w) simp_all

lemma panic_is: "(e::panic) = NilPointerDereference"
  by (cases e) simp

lemma panics_iff: "panics r = (r = Inl NilPointerDereference)"
  by (cases r) (simp_all add: panics_def panic_is)

lemma panics_simps: "panics (Inl e) = True" "panics (Inr v) = False"
  by (simp_all add: panics_def)

lemma andThen_simps: "andThen (Inl e) f = Inl e" "andThen (Inr v) f = f v"
  by (simp_all add: andThen_def)

lemma panics_andThen:
  "panics (andThen m f) = (case m of Inl e \<Rightarrow> True | Inr v \<Rightarrow> panics (f v))"
  by (cases m) (simp_all add: andThen_simps panics_simps)

lemma andThen_eq_Inr: "(andThen m f = Inr r) = (\<exists>v. m = Inr v \<and> f v = Inr r)"
  by (cases m) (simp_all add: andThen_def)

lemma panics_deref: "panics (deref p) = (p = None)"
  by (cases p) (simp_all add: deref_def panics_simps)

lemma deref_eq_Inr: "(deref p = Inr v) = (p = Some v)"
  by (simp add: deref_def split: option.split)

lemma panics_convertEach:
  "panics (convertEach From xs) =
     (\<not> list_all (\<lambda>x. \<not> panics (From x) \<and> From x \<noteq> Inr None) xs)"
proof (induction xs)
  case Nil
  show ?case by (simp add: panics_simps)
next
  case (Cons x xs)
  show ?case
  proof (cases "From x")
    case (Inl e)
    then show ?thesis by (simp add: andThen_simps panics_simps)
  next
    case (Inr r)
    with Cons show ?thesis
      by (cases r; cases "convertEach From xs")
         (simp_all add: andThen_simps deref_def panics_simps)
  qed
qed

lemma panics_convertEach_pure:
  assumes "\<And>x. (From x = None) = (x = None)"
  shows "panics (convertEach (\<lambda>x. Inr (From x)) xs) = (\<not> noNil xs)"
  by (simp add: panics_convertEach noNil_def panics_simps assms)

lemma panics_convertEach_nested:
  assumes "\<And>x. panics (From x) = (\<not> nilOr P x)" and "\<And>x. (From x = Inr None) = (x = None)"
  shows "panics (convertEach From xs) = (\<not> eachNonNil P xs)"
proof -
  have "(\<not> panics (From x) \<and> From x \<noteq> Inr None) = (case x of None \<Rightarrow> False | Some v \<Rightarrow> P v)" for x
    by (cases x) (simp_all add: assms nilOr_def)
  then show ?thesis
    by (simp add: panics_convertEach eachNonNil_def)
qed

lemma value_or_panic:
  assumes "(r = Inr None) = False"
  shows "(\<not> panics r \<longrightarrow> (\<exists>y. r = Inr (Some y))) \<and> (panics r \<longrightarrow> r = Inl NilPointerDereference)"
proof (cases r)
  case (Inl e)
  then show ?thesis by (simp add: panics_simps panic_is)
next
  case (Inr v)
  with assms show ?thesis by (cases v) (simp_all add: panics_simps)
qed

lemma panics_andThen_disj:
  "panics (andThen m f) = (panics m \<or> (\<exists>v. m = Inr v \<and> panics (f v)))"
  by (cases m) (simp_all add: andThen_simps panics_simps)

lemma ex_Inr_iff: "(\<exists>v. m = Inr v) = (\<not> panics m)"
  by (cases m) (simp_all add: panics_simps)

lemma leaf_nil:
  "(FromStageSubscriptionProto s1 = None) = (s1 = None)"
  "(FromGitSubscriptionProto s2 = None) = (s2 = None)"
  "(FromImageSubscriptionProto s3 = None) = (s3 = None)"
  "(FromChartSubscriptionProto s4 = None) = (s4 = None)"
  "(FromBookkeeperPromotionMechanismProto m1 = None) = (m1 = None)"
  "(FromKustomizeImageUpdateProto u1 = None) = (u1 = None)"
  "(FromHelmImageUpdateProto u2 = None) = (u2 = None)"
  "(FromHelmChartDependencyUpdateProto u3 = None) = (u3 = None)"
  "(FromArgoCDKustomizeProto k1 = None) = (k1 = None)"
  "(FromArgoCDHelmImageUpdateProto u4 = None) = (u4 = None)"
  "(FromPromotionSpecProto s5 = None) = (s5 = None)"
  "(FromPromotionStatusProto s6 = None) = (s6 = None)"
  by (simp_all add: FromStageSubscriptionProto_def FromGitSubscriptionProto_def
        FromImageSubscriptionProto_def FromChartSubscriptionProto_def
        FromBookkeeperPromotionMechanismProto_def FromKustomizeImageUpdateProto_def
        FromHelmImageUpdateProto_def FromHelmChartDependencyUpdateProto_def
        FromArgoCDKustomizeProto_def FromArgoCDHelmImageUpdateProto_def
        FromPromotionSpecProto_def FromPromotionStatusProto_def split: option.split)

lemma nested_nil:
  "(FromRepoSubscriptionsProto a = Inr None) = (a = None)"
  "(FromSubscriptionsProto b = Inr None) = (b = None)"
  "(FromKustomizePromotionMechanismProto c = Inr None) = (c = None)"
  "(FromHelmPromotionMechanismProto d = Inr None) = (d = None)"
  "(FromGitRepoUpdateProto e = Inr None) = (e = None)"
  "(FromArgoCDHelm f = Inr None) = (f = None)"
  "(FromArgoCDSourceUpdateProto g = Inr None) = (g = None)"
  "(FromArgoCDAppUpdatesProto h = Inr None) = (h = None)"
  "(FromPromotionMechanismsProto i = Inr None) = (i = None)"
  "(FromPromotionProto groupVersion p = Inr None) = (p = None)"
  by (simp_all add: FromRepoSubscriptionsProto_def FromSubscriptionsProto_def
        FromKustomizePromotionMechanismProto_def FromHelmPromotionMechanismProto_def
        FromGitRepoUpdateProto_def FromArgoCDHelm_def FromArgoCDSourceUpdateProto_def
        FromArgoCDAppUpdatesProto_def FromPromotionMechanismsProto_def FromPromotionProto_def
        andThen_eq_Inr Let_def split: option.split)

lemma panics_FromRepoSubscriptionsProto:
  "panics (FromRepoSubscriptionsProto s) = (\<not> nilOr noNil_RepoSubscriptions s)"
  by (cases s)
     (auto simp: FromRepoSubscriptionsProto_def nilOr_def noNil_RepoSubscriptions_def
        panics_andThen_disj panics_convertEach_pure leaf_nil panics_simps ex_Inr_iff)

lemma panics_FromSubscriptionsProto:
  "panics (FromSubscriptionsProto s) = (\<not> nilOr noNil_Subscriptions s)"
  by (cases s)
     (auto simp: FromSubscriptionsProto_def nilOr_def noNil_Subscriptions_def
        panics_andThen_disj panics_convertEach_pure leaf_nil panics_simps ex_Inr_iff
        panics_FromRepoSubscriptionsProto)

lemma panics_FromKustomizePromotionMechanismProto:
  "panics (FromKustomizePromotionMechanismProto m) = (\<not> nilOr noNil_KustomizePromotionMechanism m)"
  by (cases m)
     (auto simp: FromKustomizePromotionMechanismProto_def nilOr_def
        noNil_KustomizePromotionMechanism_def
        panics_andThen_disj panics_convertEach_pure leaf_nil panics_simps ex_Inr_iff)

lemma panics_FromHelmPromotionMechanismProto:
  "panics (FromHelmPromotionMechanismProto m) = (\<not> nilOr noNil_HelmPromotionMechanism m)"
  by (cases m)
     (auto simp: FromHelmPromotionMechanismProto_def nilOr_def noNil_HelmPromotionMechanism_def
        panics_andThen_disj panics_convertEach_pure leaf_nil panics_simps ex_Inr_iff)

lemma panics_FromGitRepoUpdateProto:
  "panics (FromGitRepoUpdateProto u) = (\<not> nilOr noNil_GitRepoUpdate u)"
  by (cases u)
     (auto simp: FromGitRepoUpdateProto_def nilOr_def [of noNil_GitRepoUpdate]
        noNil_GitRepoUpdate_def panics_andThen_disj panics_simps ex_Inr_iff
        panics_FromKustomizePromotionMechanismProto panics_FromHelmPromotionMechanismProto)

lemma panics_FromArgoCDHelm:
  "panics (FromArgoCDHelm h) = (\<not> nilOr noNil_ArgoCDHelm h)"
  by (cases h)
     (auto simp: FromArgoCDHelm_def nilOr_def noNil_ArgoCDHelm_def
        panics_andThen_disj panics_convertEach_pure leaf_nil panics_simps ex_Inr_iff)

lemma panics_FromArgoCDSourceUpdateProto:
  "panics (FromArgoCDSourceUpdateProto u) = (\<not> nilOr noNil_ArgoCDSourceUpdate u)"
  by (cases u)
     (auto simp: FromArgoCDSourceUpdateProto_def nilOr_def [of noNil_ArgoCDSourceUpdate]
        noNil_ArgoCDSourceUpdate_def panics_andThen_disj panics_simps ex_Inr_iff
        panics_FromArgoCDHelm)

lemma panics_FromArgoCDAppUpdatesProto:
  "panics (FromArgoCDAppUpdatesProto u) = (\<not> nilOr noNil_ArgoCDAppUpdate u)"
  by (cases u)
     (auto simp: FromArgoCDAppUpdatesProto_def nilOr_def [of noNil_ArgoCDAppUpdate]
        noNil_ArgoCDAppUpdate_def panics_andThen_disj panics_simps ex_Inr_iff
        panics_convertEach_nested [of FromArgoCDSourceUpdateProto noNil_ArgoCDSourceUpdate]
        panics_FromArgoCDSourceUpdateProto nested_nil)

lemma panics_FromPromotionMechanismsProto:
  "panics (FromPromotionMechanismsProto m) = (\<not> nilOr noNil_PromotionMechanisms m)"
  by (cases m)
     (auto simp: FromPromotionMechanismsProto_def nilOr_def [of noNil_PromotionMechanisms]
        noNil_PromotionMechanisms_def panics_andThen_disj panics_simps ex_Inr_iff
        panics_convertEach_nested [of FromGitRepoUpdateProto noNil_GitRepoUpdate]
        panics_convertEach_nested [of FromArgoCDAppUpdatesProto noNil_ArgoCDAppUpdate]
        panics_FromGitRepoUpdateProto panics_FromArgoCDAppUpdatesProto nested_nil)

lemma panics_FromPromotionProto: "\<not> panics (FromPromotionProto groupVersion p)"
  by (cases p)
     (auto simp: FromPromotionProto_def panics_andThen_disj panics_simps panics_deref leaf_nil
        Let_def split: option.split)

lemma outcomeOf_guarded:
  assumes "panics r = (\<not> nilOr ok p)" and "(r = Inr None) = (p = None)"
  shows "outcomeOf r = guarded ok p"
proof (cases r)
  case (Inl e)
  with assms(1) show ?thesis
    by (cases p) (simp_all add: outcomeOf_def guarded_def nilOr_def panics_simps)
next
  case (Inr v)
  with assms show ?thesis
    by (cases p; cases v) (simp_all add: outcomeOf_def guarded_def nilOr_def panics_simps)
qed

lemma ErrorContains_Wrapf:
  "ErrorContains (Wrapf err (format @ rest)) format" "ErrorContains (Wrapf err format) (ErrorText err)"
proof -
  have "sublist format ([] @ format @ (rest @ '': '' @ ErrorText err))"
    by (rule sublist_appendI)
  then show "ErrorContains (Wrapf err (format @ rest)) format"
    by (simp add: ErrorContains_def)
  have "sublist (ErrorText err) ((format @ '': '') @ ErrorText err @ [])"
    by (rule sublist_appendI)
  then show "ErrorContains (Wrapf err format) (ErrorText err)"
    by (simp add: ErrorContains_def)
qed

lemma ErrorContains_New: "ErrorContains (New (message @ rest)) message"
  by (simp add: ErrorContains_def sublist_append_rightI)

lemma selectCharts_after_selected:
  assumes "list_all (selects credentialsDB selectChartVersionFn namespace) before"
    and "selectCharts chartIdentity credentialsDB selectChartVersionFn namespace rest = Inl e"
  shows "selectCharts chartIdentity credentialsDB selectChartVersionFn namespace (before @ rest) = Inl e"
  using assms
  by (induction before) (auto simp: selects_def split: option.splits prod.splits)

section \<open>The claims\<close>

subsection \<open>Selection of the next Promotion\<close>

text \<open>
  Claim C1, as the code has it. When no active Promotion is recorded for the stage key
  (the entry is absent or the empty string) and the stage's pending queue is \<open>stale @ rest\<close>,
  where every entry of \<open>stale\<close> refers to a Promotion that no longer exists or whose phase
  is terminal, and \<open>rest\<close> is empty or starts with a valid entry (its Promotion is fetched,
  under its own namespace and name, and is not terminal), then \<^verbatim>\<open>enqueueNext\<close> pops
  exactly the entries of \<open>stale\<close>: the queue left is \<open>rest\<close>, in its order, the valid
  entry still at its head. The active map is unchanged. One \<^verbatim>\<open>AddRateLimited\<close> is made,
  for the valid entry; when every entry is stale nothing is enqueued and the pass returns.
\<close>

theorem enqueueNext_discards_stale_head:
  assumes "activePromo (pqs w) stageKey = ''''"
    and "pendingPromoQueuesByStage (pqs w) stageKey = Some (stale @ rest)"
    and "list_all (isStale getPromotion) stale"
    and "case rest of [] \<Rightarrow> True
         | v # _ \<Rightarrow> isValid getPromotion v \<and> fetchedUnderKey getPromotion v"
  shows "pendingPromoQueuesByStage (pqs (snd (enqueueNext getPromotion stageKey w))) =
           (pendingPromoQueuesByStage (pqs w))(stageKey \<mapsto> rest)
       \<and> activePromoByStage (pqs (snd (enqueueNext getPromotion stageKey w))) =
           activePromoByStage (pqs w)
       \<and> wq (snd (enqueueNext getPromotion stageKey w)) =
           wq w @ (case rest of [] \<Rightarrow> [] | v # _ \<Rightarrow> [AddRateLimited v])
       \<and> (rest = [] \<longrightarrow> fst (enqueueNext getPromotion stageKey w) = Returned)"
proof (cases rest)
  case Nil
  with assms(1) show ?thesis
    by (simp add: enqueueNext_def examinePending_stale_prefix [OF assms(2,3)] loop_empty)
next
  case (Cons v rest')
  with assms(4) have "isValid getPromotion v" and key: "fetchedUnderKey getPromotion v"
    by simp_all
  then obtain promo where fetch: "getPromotion v = Inr (Some promo)"
    and live: "\<not> IsTerminal (Phase (Status promo))"
    by (auto elim: isValid_obtain)
  from key fetch have req:
    "\<lparr>NamespacedName.Namespace = ObjectMeta.Namespace (ObjectMeta promo),
      Name = ObjectMeta.Name (ObjectMeta promo)\<rparr> = v"
    by (simp add: fetchedUnderKey_def)
  from assms(1) Cons show ?thesis
    by (simp add: enqueueNext_def examinePending_stale_prefix [OF assms(2,3)]
             loop_valid [of getPromotion v promo, OF fetch live] req Let_def split: option.split)
qed

text \<open>
  The theorem at a queue of a deleted Promotion, a succeeded one, a pending one and
  one more entry, and at a queue of the two stale entries alone.
\<close>

theorem enqueueNext_discards_stale_head_witness:
  "snd (enqueueNext ex_getPromotion ex_stage
          (ex_world Map.empty [ex_ref ''p2'', ex_ref ''p3'', ex_ref ''p4'', ex_ref ''p5''])) =
     \<lparr>pqs = \<lparr>activePromoByStage = Map.empty,
              pendingPromoQueuesByStage = [ex_stage \<mapsto> [ex_ref ''p4'', ex_ref ''p5'']]\<rparr>,
      wq = [AddRateLimited (ex_ref ''p4'')],
      logs = [Debug [(''promotion'', ''p4''), (''namespace'', ''ns''), (''stage'', ''s1'')]
                ''enqueued promo'']\<rparr>
   \<and> wq (snd (enqueueNext ex_getPromotion ex_stage
                 (ex_world Map.empty [ex_ref ''p2'', ex_ref ''p3'']))) = []
   \<and> pendingPromoQueuesByStage (pqs (snd (enqueueNext ex_getPromotion ex_stage
                 (ex_world Map.empty [ex_ref ''p2'', ex_ref ''p3''])))) ex_stage = Some []"
proof -
  have a: "activePromo (pqs (ex_world Map.empty q)) ex_stage = ''''" for q
    by (simp add: activePromo_def ex_world_def)
  have s: "list_all (isStale ex_getPromotion) [ex_ref ''p2'', ex_ref ''p3'']"
    by (simp add: isStale_def IsTerminal_def ex_defs)
  have v: "case [ex_ref ''p4'', ex_ref ''p5''] of [] \<Rightarrow> True
           | v # _ \<Rightarrow> isValid ex_getPromotion v \<and> fetchedUnderKey ex_getPromotion v"
    by (simp add: isValid_def fetchedUnderKey_def IsTerminal_def ex_defs)
  have p: "pendingPromoQueuesByStage (pqs (ex_world Map.empty ([ex_ref ''p2'', ex_ref ''p3''] @ r))) ex_stage
             = Some ([ex_ref ''p2'', ex_ref ''p3''] @ r)" for r
    by (simp add: ex_world_def)
  have l: "logs (snd (enqueueNext ex_getPromotion ex_stage
          (ex_world Map.empty [ex_ref ''p2'', ex_ref ''p3'', ex_ref ''p4'', ex_ref ''p5'']))) =
      [Debug [(''promotion'', ''p4''), (''namespace'', ''ns''), (''stage'', ''s1'')] ''enqueued promo'']"
    by (simp add: enqueueNext_def examinePending_def activePromo_def loop_cons IsTerminal_def ex_defs)
  from enqueueNext_discards_stale_head [OF a p s v]
       enqueueNext_discards_stale_head [OF a p s, of "[]"] l
  show ?thesis
    by (simp add: ex_world_def world.equality promoQueues.equality)
qed

text \<open>
  Claim C1 as stated ranges over every call of \<^verbatim>\<open>enqueueNext\<close>. With an active
  Promotion recorded for the stage, the call returns at its guard: the two stale entries
  stay in the queue and the valid entry behind them is not enqueued.
\<close>

theorem enqueueNext_with_active_promotion_counterexample:
  "list_all (isStale ex_getPromotion) [ex_ref ''p2'', ex_ref ''p3'']
   \<and> isValid ex_getPromotion (ex_ref ''p4'')
   \<and> enqueueNext ex_getPromotion ex_stage
        (ex_world [ex_stage \<mapsto> ''p1''] [ex_ref ''p2'', ex_ref ''p3'', ex_ref ''p4'']) =
       (Returned, ex_world [ex_stage \<mapsto> ''p1''] [ex_ref ''p2'', ex_ref ''p3'', ex_ref ''p4''])
   \<and> wq (ex_world [ex_stage \<mapsto> ''p1''] [ex_ref ''p2'', ex_ref ''p3'', ex_ref ''p4'']) = []"
  by (simp add: isStale_def isValid_def IsTerminal_def enqueueNext_def activePromo_def ex_defs)

text \<open>
  Claim C4. When the pass reaches a candidate \<open>c\<close> (behind any stale entries it has
  popped) and fetching \<open>c\<close> fails with an error, the pass returns: \<open>c\<close> stays at the
  head of the queue with all that follows it, nothing is enqueued, the active map is
  unchanged, and the error is logged. No later candidate is examined: the result is the
  same for every client that answers alike on the entries up to \<open>c\<close>. The handler
  schedules no retry; the next pass is the next call.
\<close>

theorem enqueueNext_aborts_on_fetch_error:
  assumes "activePromo (pqs w) stageKey = ''''"
    and "pendingPromoQueuesByStage (pqs w) stageKey = Some (stale @ c # rest)"
    and "list_all (isStale getPromotion) stale"
    and "getPromotion c = Inl err"
  shows "fst (enqueueNext getPromotion stageKey w) = Returned
       \<and> pendingPromoQueuesByStage (pqs (snd (enqueueNext getPromotion stageKey w))) =
           (pendingPromoQueuesByStage (pqs w))(stageKey \<mapsto> c # rest)
       \<and> activePromoByStage (pqs (snd (enqueueNext getPromotion stageKey w))) =
           activePromoByStage (pqs w)
       \<and> wq (snd (enqueueNext getPromotion stageKey w)) = wq w
       \<and> logs (snd (enqueueNext getPromotion stageKey w)) =
           logs w @ [Errorf ''Failed to get next highest priority Promotion (%s) for enqueue: %v'']
       \<and> (\<forall>getPromotion'.
             (\<forall>x \<in> set (stale @ [c]). getPromotion' x = getPromotion x) \<longrightarrow>
             enqueueNext getPromotion' stageKey w = enqueueNext getPromotion stageKey w)"
proof -
  let ?r = "(Returned,
      w\<lparr>pqs := (pqs w)\<lparr>pendingPromoQueuesByStage :=
             (pendingPromoQueuesByStage (pqs w))(stageKey \<mapsto> c # rest)\<rparr>,
        logs := logs w @
          [Errorf ''Failed to get next highest priority Promotion (%s) for enqueue: %v'']\<rparr>)"
  have here: "enqueueNext getPromotion stageKey w = ?r"
    by (rule enqueueNext_fetch_error [OF assms])
  have other: "enqueueNext g' stageKey w = ?r"
    if same: "\<forall>x \<in> set (stale @ [c]). g' x = getPromotion x" for g'
  proof -
    from same assms(3) have "list_all (isStale g') stale"
      by (simp add: list_all_iff isStale_def)
    moreover from same assms(4) have "g' c = Inl err"
      by simp
    ultimately show ?thesis
      by (rule enqueueNext_fetch_error [OF assms(1,2)])
  qed
  show ?thesis
  proof (intro conjI allI impI)
    fix g' assume "\<forall>x \<in> set (stale @ [c]). g' x = getPromotion x"
    then have "enqueueNext g' stageKey w = ?r"
      by (rule other)
    with here show "enqueueNext g' stageKey w = enqueueNext getPromotion stageKey w"
      by (simp only:)
  qed (simp_all add: here)
qed

text \<open>
  The theorem at a queue of a deleted Promotion, an entry whose fetch fails, and a valid
  entry.
\<close>

theorem enqueueNext_aborts_on_fetch_error_witness:
  "enqueueNext ex_getPromotion ex_stage
     (ex_world Map.empty [ex_ref ''p2'', ex_ref ''p5'', ex_ref ''p4'']) =
   (Returned,
    \<lparr>pqs = \<lparr>activePromoByStage = Map.empty,
             pendingPromoQueuesByStage = [ex_stage \<mapsto> [ex_ref ''p5'', ex_ref ''p4'']]\<rparr>,
     wq = [],
     logs = [Errorf ''Failed to get next highest priority Promotion (%s) for enqueue: %v'']\<rparr>)"
proof -
  have a: "activePromo (pqs (ex_world Map.empty q)) ex_stage = ''''" for q
    by (simp add: activePromo_def ex_world_def)
  have p: "pendingPromoQueuesByStage
             (pqs (ex_world Map.empty [ex_ref ''p2'', ex_ref ''p5'', ex_ref ''p4''])) ex_stage =
           Some ([ex_ref ''p2''] @ ex_ref ''p5'' # [ex_ref ''p4''])"
    by (simp add: ex_world_def)
  have s: "list_all (isStale ex_getPromotion) [ex_ref ''p2'']"
    by (simp add: isStale_def ex_defs)
  have e: "ex_getPromotion (ex_ref ''p5'') = Inl ''informer cache not synced''"
    by (simp add: ex_defs)
  note r = enqueueNext_aborts_on_fetch_error [OF a p s e]
  note r1 = r [THEN conjunct1]
  note r2 = r [THEN conjunct2, THEN conjunct1]
  note r3 = r [THEN conjunct2, THEN conjunct2, THEN conjunct1]
  note r4 = r [THEN conjunct2, THEN conjunct2, THEN conjunct2, THEN conjunct1]
  note r5 = r [THEN conjunct2, THEN conjunct2, THEN conjunct2, THEN conjunct2, THEN conjunct1]
  from r1 r2 r3 r4 r5
  show ?thesis
    by (simp add: ex_world_def world.equality promoQueues.equality prod_eq_iff)
qed

text \<open>
  Claim C5. On a stage key whose pending queue is empty, or that has no pending queue,
  \<^verbatim>\<open>enqueueNext\<close> returns with the whole state unchanged: the active map, every
  pending queue, the work queue and the log.
\<close>

theorem enqueueNext_empty_queue:
  assumes "pendingPromoQueuesByStage (pqs w) stageKey = None
           \<or> pendingPromoQueuesByStage (pqs w) stageKey = Some []"
  shows "enqueueNext getPromotion stageKey w = (Returned, w)"
  using assms
  by (auto simp: enqueueNext_def examinePending_def loop_empty pending_upd_same)

text \<open>The theorem at an empty queue, and at a stage key that has no queue.\<close>

theorem enqueueNext_empty_queue_witness:
  "enqueueNext ex_getPromotion ex_stage (ex_world Map.empty []) =
     (Returned, ex_world Map.empty [])
   \<and> enqueueNext ex_getPromotion (ex_ref ''s2'') (ex_world Map.empty [ex_ref ''p4'']) =
     (Returned, ex_world Map.empty [ex_ref ''p4''])"
proof -
  have "pendingPromoQueuesByStage (pqs (ex_world Map.empty [])) ex_stage = Some []"
    by (simp add: ex_world_def)
  moreover have "pendingPromoQueuesByStage (pqs (ex_world Map.empty [ex_ref ''p4''])) (ex_ref ''s2'') = None"
    by (simp add: ex_world_def ex_stage_def ex_ref_def)
  ultimately show ?thesis
    using enqueueNext_empty_queue [of "ex_world Map.empty []" ex_stage ex_getPromotion]
      enqueueNext_empty_queue [of "ex_world Map.empty [ex_ref ''p4'']" "ex_ref ''s2''" ex_getPromotion]
    by simp
qed

text \<open>
  Claim C6. \<^verbatim>\<open>enqueueNext\<close> goes on to the stage's pending queue exactly when the
  stage's entry in \<^verbatim>\<open>activePromoByStage\<close> is absent or the empty string; for any other
  recorded value it returns at once with the state unchanged. The two cases can be told
  apart from outside: with a valid entry at the head of the queue, something is enqueued
  if and only if the entry is absent or empty.
\<close>

theorem enqueueNext_active_guard:
  "(if activePromoByStage (pqs w) stageKey = None
       \<or> activePromoByStage (pqs w) stageKey = Some ''''
    then enqueueNext getPromotion stageKey w = examinePending getPromotion stageKey w
    else enqueueNext getPromotion stageKey w = (Returned, w))
   \<and> (\<forall>v rest.
         pendingPromoQueuesByStage (pqs w) stageKey = Some (v # rest) \<longrightarrow>
         isValid getPromotion v \<longrightarrow>
           (wq (snd (enqueueNext getPromotion stageKey w)) \<noteq> wq w) =
           (activePromoByStage (pqs w) stageKey = None
              \<or> activePromoByStage (pqs w) stageKey = Some ''''))"
proof -
  have guard: "(activePromo (pqs w) stageKey = '''') =
      (activePromoByStage (pqs w) stageKey = None \<or> activePromoByStage (pqs w) stageKey = Some '''')"
    by (simp add: activePromo_def split: option.split)
  have "wq (snd (examinePending getPromotion stageKey w)) \<noteq> wq w"
    if "pendingPromoQueuesByStage (pqs w) stageKey = Some (v # rest)"
      and "isValid getPromotion v" for v rest
  proof -
    from that(2) obtain promo where fetch: "getPromotion v = Inr (Some promo)"
      and live: "\<not> IsTerminal (Phase (Status promo))"
      by (auto elim: isValid_obtain)
    from that(1) show ?thesis
      by (simp add: examinePending_def loop_valid [of getPromotion v promo, OF fetch live]
            Let_def split: option.split)
  qed
  with guard show ?thesis
    by (auto simp: enqueueNext_def)
qed

text \<open>
  The theorem at an absent entry, at the empty string, and at the recorded name
  \<open>p1\<close>, each with the valid Promotion \<open>p4\<close> pending.
\<close>

theorem enqueueNext_active_guard_witness:
  "enqueueNext ex_getPromotion ex_stage (ex_world Map.empty [ex_ref ''p4'']) =
     examinePending ex_getPromotion ex_stage (ex_world Map.empty [ex_ref ''p4''])
   \<and> enqueueNext ex_getPromotion ex_stage (ex_world [ex_stage \<mapsto> ''''] [ex_ref ''p4'']) =
     examinePending ex_getPromotion ex_stage (ex_world [ex_stage \<mapsto> ''''] [ex_ref ''p4''])
   \<and> wq (snd (enqueueNext ex_getPromotion ex_stage (ex_world [ex_stage \<mapsto> ''''] [ex_ref ''p4'']))) \<noteq> []
   \<and> enqueueNext ex_getPromotion ex_stage (ex_world [ex_stage \<mapsto> ''p1''] [ex_ref ''p4'']) =
     (Returned, ex_world [ex_stage \<mapsto> ''p1''] [ex_ref ''p4''])"
proof -
  have v: "isValid ex_getPromotion (ex_ref ''p4'')"
    by (simp add: isValid_def IsTerminal_def ex_defs)
  have p: "pendingPromoQueuesByStage (pqs (ex_world a [ex_ref ''p4''])) ex_stage =
           Some (ex_ref ''p4'' # [])" for a
    by (simp add: ex_world_def)
  have g1: "enqueueNext ex_getPromotion ex_stage (ex_world Map.empty [ex_ref ''p4'']) =
     examinePending ex_getPromotion ex_stage (ex_world Map.empty [ex_ref ''p4''])"
    using enqueueNext_active_guard
      [of "ex_world Map.empty [ex_ref ''p4'']" ex_stage ex_getPromotion, THEN conjunct1]
    by (simp add: ex_world_def)
  note g = enqueueNext_active_guard
      [of "ex_world [ex_stage \<mapsto> ''''] [ex_ref ''p4'']" ex_stage ex_getPromotion]
  have g2: "enqueueNext ex_getPromotion ex_stage (ex_world [ex_stage \<mapsto> ''''] [ex_ref ''p4'']) =
     examinePending ex_getPromotion ex_stage (ex_world [ex_stage \<mapsto> ''''] [ex_ref ''p4''])"
    using g [THEN conjunct1] by (simp add: ex_world_def)
  have g3: "wq (snd (enqueueNext ex_getPromotion ex_stage
                       (ex_world [ex_stage \<mapsto> ''''] [ex_ref ''p4'']))) \<noteq> []"
    using g [THEN conjunct2, rule_format, OF p v] by (simp add: ex_world_def)
  have g4: "enqueueNext ex_getPromotion ex_stage (ex_world [ex_stage \<mapsto> ''p1''] [ex_ref ''p4'']) =
     (Returned, ex_world [ex_stage \<mapsto> ''p1''] [ex_ref ''p4''])"
    using enqueueNext_active_guard
      [of "ex_world [ex_stage \<mapsto> ''p1''] [ex_ref ''p4'']" ex_stage ex_getPromotion, THEN conjunct1]
    by (simp add: ex_world_def)
  from g1 g2 g3 g4 show ?thesis
    by (intro conjI)
qed

subsection \<open>The event callbacks\<close>




text \<open>
  Claim C7. \<^verbatim>\<open>UpdatedArgoCDAppHandler.Update\<close> never changes the registry. For an
  event with both objects, it lists the Promotions under the index field with the value
  \<open>namespace:name\<close> of the new object and the handler's shard selector, and makes one
  \<^verbatim>\<open>Add\<close> per Promotion listed, in order, with that Promotion's namespace and name.
  When the listing fails, or an object of the event is missing, nothing is enqueued.
\<close>

theorem UpdatedArgoCDApp_Update_enqueues_listed:
  "pqs (snd (UpdatedArgoCDAppHandler_Update indexField u e w)) = pqs w
   \<and> fst (UpdatedArgoCDAppHandler_Update indexField u e w) = Returned
   \<and> (\<forall>new old items.
         ObjectNew e = Some new \<longrightarrow> ObjectOld e = Some old \<longrightarrow>
         kargoClient u
           \<lparr>FieldSelector = (indexField, GetNamespace new @ '':'' @ GetName new),
            LabelSelector = shardSelector u\<rparr> = Inr items \<longrightarrow>
         wq (snd (UpdatedArgoCDAppHandler_Update indexField u e w)) =
           wq w @ map (\<lambda>p. Add \<lparr>NamespacedName.Namespace = ObjectMeta.Namespace (ObjectMeta p),
                                   Name = ObjectMeta.Name (ObjectMeta p)\<rparr>) items)
   \<and> (\<forall>new old err.
         ObjectNew e = Some new \<longrightarrow> ObjectOld e = Some old \<longrightarrow>
         kargoClient u
           \<lparr>FieldSelector = (indexField, GetNamespace new @ '':'' @ GetName new),
            LabelSelector = shardSelector u\<rparr> = Inl err \<longrightarrow>
         wq (snd (UpdatedArgoCDAppHandler_Update indexField u e w)) = wq w)
   \<and> (ObjectNew e = None \<or> ObjectOld e = None \<longrightarrow>
         wq (snd (UpdatedArgoCDAppHandler_Update indexField u e w)) = wq w)"
  by (auto simp: UpdatedArgoCDAppHandler_Update_def enqueueListed_effect
           split: option.splits sum.splits)

text \<open>
  The theorem at an Application for which two running Promotions are listed, at an
  index field for which the listing fails, and at an event with no old object.
\<close>

theorem UpdatedArgoCDApp_Update_enqueues_listed_witness:
  "wq (snd (UpdatedArgoCDAppHandler_Update ''applications'' ex_handler
              \<lparr>ObjectOld = Some ex_app, ObjectNew = Some ex_app\<rparr>
              (ex_world [ex_stage \<mapsto> ''p4''] [ex_ref ''p7'']))) =
     [Add (ex_ref ''p4''), Add (ex_ref ''p7'')]
   \<and> pqs (snd (UpdatedArgoCDAppHandler_Update ''applications'' ex_handler
              \<lparr>ObjectOld = Some ex_app, ObjectNew = Some ex_app\<rparr>
              (ex_world [ex_stage \<mapsto> ''p4''] [ex_ref ''p7'']))) =
     pqs (ex_world [ex_stage \<mapsto> ''p4''] [ex_ref ''p7''])
   \<and> wq (snd (UpdatedArgoCDAppHandler_Update ''apps'' ex_handler
              \<lparr>ObjectOld = Some ex_app, ObjectNew = Some ex_app\<rparr>
              (ex_world [ex_stage \<mapsto> ''p4''] [ex_ref ''p7'']))) = []
   \<and> wq (snd (UpdatedArgoCDAppHandler_Update ''applications'' ex_handler
              \<lparr>ObjectOld = None, ObjectNew = Some ex_app\<rparr>
              (ex_world [ex_stage \<mapsto> ''p4''] [ex_ref ''p7'']))) = []"
proof -
  let ?w = "ex_world [ex_stage \<mapsto> ''p4''] [ex_ref ''p7'']"
  let ?e = "\<lparr>ObjectOld = Some ex_app, ObjectNew = Some ex_app\<rparr>"
  note ok = UpdatedArgoCDApp_Update_enqueues_listed [of "''applications''" ex_handler ?e ?w]
  have listed: "kargoClient ex_handler
      \<lparr>FieldSelector = (''applications'', GetNamespace ex_app @ '':'' @ GetName ex_app),
       LabelSelector = shardSelector ex_handler\<rparr> =
      Inr [ex_promotion ''p4'' ''Running'', ex_promotion ''p7'' ''Running'']"
    by (simp add: ex_handler_def ex_app_def)
  have w1: "wq (snd (UpdatedArgoCDAppHandler_Update ''applications'' ex_handler ?e ?w)) =
      [Add (ex_ref ''p4''), Add (ex_ref ''p7'')]"
    using ok [THEN conjunct2, THEN conjunct2, THEN conjunct1, rule_format, OF _ _ listed]
    by (simp add: ex_world_def ex_promotion_def ex_ref_def)
  have w2: "pqs (snd (UpdatedArgoCDAppHandler_Update ''applications'' ex_handler ?e ?w)) = pqs ?w"
    by (rule ok [THEN conjunct1])
  note bad = UpdatedArgoCDApp_Update_enqueues_listed [of "''apps''" ex_handler ?e ?w]
  have failed: "kargoClient ex_handler
      \<lparr>FieldSelector = (''apps'', GetNamespace ex_app @ '':'' @ GetName ex_app),
       LabelSelector = shardSelector ex_handler\<rparr> = Inl ''index not found''"
    by (simp add: ex_handler_def ex_app_def)
  have w3: "wq (snd (UpdatedArgoCDAppHandler_Update ''apps'' ex_handler ?e ?w)) = []"
    using bad [THEN conjunct2, THEN conjunct2, THEN conjunct2, THEN conjunct1, rule_format,
               OF _ _ failed]
    by (simp add: ex_world_def)
  have w4: "wq (snd (UpdatedArgoCDAppHandler_Update ''applications'' ex_handler
              \<lparr>ObjectOld = None, ObjectNew = Some ex_app\<rparr> ?w)) = []"
    using UpdatedArgoCDApp_Update_enqueues_listed
            [of "''applications''" ex_handler "\<lparr>ObjectOld = None, ObjectNew = Some ex_app\<rparr>" ?w,
             THEN conjunct2, THEN conjunct2, THEN conjunct2, THEN conjunct2]
    by (simp add: ex_world_def)
  from w1 w2 w3 w4 show ?thesis
    by (intro conjI)
qed

text \<open>
  Claim C10. \<^verbatim>\<open>Create\<close> and \<^verbatim>\<open>Generic\<close> of the terminal-transition handler, and
  \<^verbatim>\<open>Create\<close>, \<^verbatim>\<open>Delete\<close> and \<^verbatim>\<open>Generic\<close> of the Argo CD application handler,
  return with the registry, the work queue and the log unchanged, for every event.
\<close>

theorem noop_callbacks:
  "EnqueueHighestPriorityPromotionHandler_Create createEvt w = (Returned, w)
   \<and> EnqueueHighestPriorityPromotionHandler_Generic genericEvt w = (Returned, w)
   \<and> UpdatedArgoCDAppHandler_Create createEvt w = (Returned, w)
   \<and> UpdatedArgoCDAppHandler_Delete deleteEvt w = (Returned, w)
   \<and> UpdatedArgoCDAppHandler_Generic genericEvt w = (Returned, w)"
  by (simp add: EnqueueHighestPriorityPromotionHandler_Create_def
        EnqueueHighestPriorityPromotionHandler_Generic_def
        UpdatedArgoCDAppHandler_Create_def UpdatedArgoCDAppHandler_Delete_def
        UpdatedArgoCDAppHandler_Generic_def)

subsection \<open>The converters from proto\<close>

text \<open>
  Claim C9, as the code has it. Every converter that guards its pointer argument returns
  nil for nil. The twelve that convert scalar fields only, and \<^verbatim>\<open>FromPromotionProto\<close>,
  return non-nil for every non-nil input. The nine that dereference the converted
  elements of a repeated field, or call one that does, return non-nil for a non-nil input
  in which no such field has a nil element, and panic on a nil pointer for any other
  non-nil input; they never return nil for a non-nil input.
\<close>

theorem From_proto_nil_guard:
  "(FromStageSubscriptionProto stage = None) = (stage = None)
   \<and> (FromGitSubscriptionProto git = None) = (git = None)
   \<and> (FromImageSubscriptionProto imageSub = None) = (imageSub = None)
   \<and> (FromChartSubscriptionProto chart = None) = (chart = None)
   \<and> (FromBookkeeperPromotionMechanismProto bookkeeper = None) = (bookkeeper = None)
   \<and> (FromKustomizeImageUpdateProto kustomizeImage = None) = (kustomizeImage = None)
   \<and> (FromHelmImageUpdateProto helmImage = None) = (helmImage = None)
   \<and> (FromHelmChartDependencyUpdateProto helmChart = None) = (helmChart = None)
   \<and> (FromArgoCDKustomizeProto argoKustomize = None) = (argoKustomize = None)
   \<and> (FromArgoCDHelmImageUpdateProto argoImage = None) = (argoImage = None)
   \<and> (FromPromotionSpecProto spec = None) = (spec = None)
   \<and> (FromPromotionStatusProto status = None) = (status = None)
   \<and> outcomeOf (FromPromotionProto groupVersion promotion) = guarded (\<lambda>p. True) promotion
   \<and> outcomeOf (FromSubscriptionsProto subs) = guarded noNil_Subscriptions subs
   \<and> outcomeOf (FromRepoSubscriptionsProto repos) = guarded noNil_RepoSubscriptions repos
   \<and> outcomeOf (FromPromotionMechanismsProto mechanisms) =
        guarded noNil_PromotionMechanisms mechanisms
   \<and> outcomeOf (FromGitRepoUpdateProto gitUpdate) = guarded noNil_GitRepoUpdate gitUpdate
   \<and> outcomeOf (FromKustomizePromotionMechanismProto kustomize) =
        guarded noNil_KustomizePromotionMechanism kustomize
   \<and> outcomeOf (FromHelmPromotionMechanismProto helm) =
        guarded noNil_HelmPromotionMechanism helm
   \<and> outcomeOf (FromArgoCDAppUpdatesProto argoUpdate) = guarded noNil_ArgoCDAppUpdate argoUpdate
   \<and> outcomeOf (FromArgoCDSourceUpdateProto sourceUpdate) =
        guarded noNil_ArgoCDSourceUpdate sourceUpdate
   \<and> outcomeOf (FromArgoCDHelm argoHelm) = guarded noNil_ArgoCDHelm argoHelm"
proof -
  have "panics (FromPromotionProto groupVersion promotion) = (\<not> nilOr (\<lambda>p. True) promotion)"
    by (simp add: panics_FromPromotionProto nilOr_def split: option.split)
  then have "outcomeOf (FromPromotionProto groupVersion promotion) = guarded (\<lambda>p. True) promotion"
    by (rule outcomeOf_guarded) (rule nested_nil)
  moreover note
    outcomeOf_guarded [OF panics_FromSubscriptionsProto nested_nil(2)]
    outcomeOf_guarded [OF panics_FromRepoSubscriptionsProto nested_nil(1)]
    outcomeOf_guarded [OF panics_FromPromotionMechanismsProto nested_nil(9)]
    outcomeOf_guarded [OF panics_FromGitRepoUpdateProto nested_nil(5)]
    outcomeOf_guarded [OF panics_FromKustomizePromotionMechanismProto nested_nil(3)]
    outcomeOf_guarded [OF panics_FromHelmPromotionMechanismProto nested_nil(4)]
    outcomeOf_guarded [OF panics_FromArgoCDAppUpdatesProto nested_nil(8)]
    outcomeOf_guarded [OF panics_FromArgoCDSourceUpdateProto nested_nil(7)]
    outcomeOf_guarded [OF panics_FromArgoCDHelm nested_nil(6)]
  ultimately show ?thesis
    by (simp only: leaf_nil simp_thms)
qed

text \<open>
  The theorem at \<^verbatim>\<open>FromSubscriptionsProto\<close>: nil, a message with one Git subscription
  and one upstream stage, and the same message with a nil second upstream stage.
\<close>

theorem From_proto_nil_guard_witness:
  "FromSubscriptionsProto None = Inr None
   \<and> FromSubscriptionsProto
        (Some (ex_subscriptions [Some \<lparr>pb_StageSubscription.Name = Some ''test''\<rparr>])) =
      Inr (Some \<lparr>Subscriptions.Repos =
                    Some \<lparr>RepoSubscriptions.Git =
                             [\<lparr>GitSubscription.RepoURL = ''https://github.com/example/repo'',
                               GitSubscription.Branch = ''''\<rparr>],
                          RepoSubscriptions.Images = [],
                          RepoSubscriptions.Charts = []\<rparr>,
                  Subscriptions.UpstreamStages = [\<lparr>StageSubscription.Name = ''test''\<rparr>]\<rparr>)
   \<and> outcomeOf (FromSubscriptionsProto
        (Some (ex_subscriptions [Some \<lparr>pb_StageSubscription.Name = Some ''test''\<rparr>]))) =
      ReturnsNonNil
   \<and> outcomeOf (FromSubscriptionsProto
        (Some (ex_subscriptions [Some \<lparr>pb_StageSubscription.Name = Some ''test''\<rparr>, None]))) =
      Panics"
proof -
  note g = From_proto_nil_guard
  have a: "outcomeOf (FromSubscriptionsProto None) = ReturnsNil"
    by (simp only: g guarded_def option.case)
  then have 1: "FromSubscriptionsProto None = Inr None"
    by (simp add: outcomeOf_def split: sum.splits option.splits)
  have 2: "FromSubscriptionsProto
        (Some (ex_subscriptions [Some \<lparr>pb_StageSubscription.Name = Some ''test''\<rparr>])) =
      Inr (Some \<lparr>Subscriptions.Repos =
                    Some \<lparr>RepoSubscriptions.Git =
                             [\<lparr>GitSubscription.RepoURL = ''https://github.com/example/repo'',
                               GitSubscription.Branch = ''''\<rparr>],
                          RepoSubscriptions.Images = [],
                          RepoSubscriptions.Charts = []\<rparr>,
                  Subscriptions.UpstreamStages = [\<lparr>StageSubscription.Name = ''test''\<rparr>]\<rparr>)"
    by (simp add: FromSubscriptionsProto_def FromRepoSubscriptionsProto_def
          FromStageSubscriptionProto_def FromGitSubscriptionProto_def ex_subscriptions_def
          andThen_simps deref_def GetString_def)
  have 3: "outcomeOf (FromSubscriptionsProto
        (Some (ex_subscriptions [Some \<lparr>pb_StageSubscription.Name = Some ''test''\<rparr>]))) =
      ReturnsNonNil"
    by (simp add: g guarded_def noNil_Subscriptions_def noNil_RepoSubscriptions_def noNil_def
          nilOr_def ex_subscriptions_def)
  have 4: "outcomeOf (FromSubscriptionsProto
        (Some (ex_subscriptions [Some \<lparr>pb_StageSubscription.Name = Some ''test''\<rparr>, None]))) =
      Panics"
    by (simp add: g guarded_def noNil_Subscriptions_def noNil_RepoSubscriptions_def noNil_def
          nilOr_def ex_subscriptions_def)
  from 1 2 3 4 show ?thesis
    by (intro conjI)
qed

text \<open>
  Claim C9 as stated has a non-nil result for every non-nil input. A non-nil
  \<^verbatim>\<open>Subscriptions\<close> whose \<^verbatim>\<open>UpstreamStages\<close> holds a nil pointer makes
  \<^verbatim>\<open>FromSubscriptionsProto\<close> dereference the nil that \<^verbatim>\<open>FromStageSubscriptionProto\<close>
  returns for it; likewise \<^verbatim>\<open>FromPromotionMechanismsProto\<close> on a nil Git repo update.
\<close>

theorem FromSubscriptionsProto_nil_element_counterexample:
  "FromSubscriptionsProto
     (Some \<lparr>pb_Subscriptions.Repos = None,
            pb_Subscriptions.UpstreamStages = [None]\<rparr>) = Inl NilPointerDereference
   \<and> FromPromotionMechanismsProto
     (Some \<lparr>pb_PromotionMechanisms.GitRepoUpdates = [None],
            pb_PromotionMechanisms.ArgoCDAppUpdates = []\<rparr>) = Inl NilPointerDereference"
  by (simp add: FromSubscriptionsProto_def FromStageSubscriptionProto_def
        FromPromotionMechanismsProto_def FromGitRepoUpdateProto_def andThen_simps deref_def)

subsection \<open>Chart selection\<close>

text \<open>
  Claim C8. Take any list of subscriptions and a chart subscription in it such that every
  subscription before it is selected without failure. When the credentials lookup for it
  fails, \<^verbatim>\<open>selectCharts\<close> fails with an error that wraps the lookup's error and whose
  text holds \<open>error obtaining credentials for chart\<close> and the text of the lookup's
  error. When the version search fails, it fails with an error that wraps the search's
  error and whose text holds \<open>error searching for latest version of chart\<close> and the text
  of the search's error. When the search returns the empty version and no error, it fails
  with an error whose text holds \<open>found no suitable version of chart\<close> and which wraps
  nothing: it is a failure of its own, not a lookup error passed on.
\<close>

theorem selectCharts_failures:
  assumes "list_all (selects credentialsDB selectChartVersionFn namespace) before"
    and "Chart s = Some sub"
  shows "(\<forall>creds ok err.
            credentialsDB namespace (ChartSubscription_wh.RepoURL sub) = (creds, ok, Some err) \<longrightarrow>
            (\<exists>e. selectCharts chartIdentity credentialsDB selectChartVersionFn namespace
                    (before @ s # after) = Inl e
               \<and> Cause e = Some err
               \<and> ErrorContains e ''error obtaining credentials for chart''
               \<and> ErrorContains e (ErrorText err)))
       \<and> (\<forall>creds ok vers err.
            credentialsDB namespace (ChartSubscription_wh.RepoURL sub) = (creds, ok, None) \<longrightarrow>
            selectChartVersionFn (ChartSubscription_wh.RepoURL sub) (ChartSubscription_wh.Name sub)
              (ChartSubscription_wh.SemverConstraint sub) (if ok then Some creds else None) =
              (vers, Some err) \<longrightarrow>
            (\<exists>e. selectCharts chartIdentity credentialsDB selectChartVersionFn namespace
                    (before @ s # after) = Inl e
               \<and> Cause e = Some err
               \<and> ErrorContains e ''error searching for latest version of chart''
               \<and> ErrorContains e (ErrorText err)))
       \<and> (\<forall>creds ok.
            credentialsDB namespace (ChartSubscription_wh.RepoURL sub) = (creds, ok, None) \<longrightarrow>
            selectChartVersionFn (ChartSubscription_wh.RepoURL sub) (ChartSubscription_wh.Name sub)
              (ChartSubscription_wh.SemverConstraint sub) (if ok then Some creds else None) =
              ('''', None) \<longrightarrow>
            (\<exists>e. selectCharts chartIdentity credentialsDB selectChartVersionFn namespace
                    (before @ s # after) = Inl e
               \<and> Cause e = None
               \<and> ErrorContains e ''found no suitable version of chart''))"
proof (intro conjI allI impI)
  fix creds ok err
  let ?e = "Wrapf err (''error obtaining credentials for chart'' @ chartIdentity sub)"
  let ?r = "selectCharts chartIdentity credentialsDB selectChartVersionFn namespace
              (before @ s # after)"
  assume "credentialsDB namespace (ChartSubscription_wh.RepoURL sub) = (creds, ok, Some err)"
  with assms(2) have "selectCharts chartIdentity credentialsDB selectChartVersionFn namespace
        (s # after) = Inl ?e"
    by simp
  from selectCharts_after_selected [OF assms(1) this] have res: "?r = Inl ?e" .
  show "\<exists>e. ?r = Inl e \<and> Cause e = Some err \<and> ErrorContains e ''error obtaining credentials for chart'' \<and> ErrorContains e (ErrorText err)"
  proof (intro exI conjI)
    show "?r = Inl ?e" by (rule res)
    show "Cause ?e = Some err" by simp
    show "ErrorContains ?e ''error obtaining credentials for chart''" by (rule ErrorContains_Wrapf)
    show "ErrorContains ?e (ErrorText err)" by (rule ErrorContains_Wrapf)
  qed
next
  fix creds ok vers err
  let ?e = "Wrapf err (''error searching for latest version of chart'' @ chartIdentity sub)"
  let ?r = "selectCharts chartIdentity credentialsDB selectChartVersionFn namespace
              (before @ s # after)"
  assume "credentialsDB namespace (ChartSubscription_wh.RepoURL sub) = (creds, ok, None)"
    and "selectChartVersionFn (ChartSubscription_wh.RepoURL sub) (ChartSubscription_wh.Name sub)
           (ChartSubscription_wh.SemverConstraint sub) (if ok then Some creds else None) =
         (vers, Some err)"
  with assms(2) have "selectCharts chartIdentity credentialsDB selectChartVersionFn namespace
        (s # after) = Inl ?e"
    by simp
  from selectCharts_after_selected [OF assms(1) this] have res: "?r = Inl ?e" .
  show "\<exists>e. ?r = Inl e \<and> Cause e = Some err \<and> ErrorContains e ''error searching for latest version of chart'' \<and> ErrorContains e (ErrorText err)"
  proof (intro exI conjI)
    show "?r = Inl ?e" by (rule res)
    show "Cause ?e = Some err" by simp
    show "ErrorContains ?e ''error searching for latest version of chart''" by (rule ErrorContains_Wrapf)
    show "ErrorContains ?e (ErrorText err)" by (rule ErrorContains_Wrapf)
  qed
next
  fix creds ok
  let ?e = "New (''found no suitable version of chart'' @ chartIdentity sub)"
  let ?r = "selectCharts chartIdentity credentialsDB selectChartVersionFn namespace
              (before @ s # after)"
  assume "credentialsDB namespace (ChartSubscription_wh.RepoURL sub) = (creds, ok, None)"
    and "selectChartVersionFn (ChartSubscription_wh.RepoURL sub) (ChartSubscription_wh.Name sub)
           (ChartSubscription_wh.SemverConstraint sub) (if ok then Some creds else None) =
         ('''', None)"
  with assms(2) have "selectCharts chartIdentity credentialsDB selectChartVersionFn namespace
        (s # after) = Inl ?e"
    by simp
  from selectCharts_after_selected [OF assms(1) this] have res: "?r = Inl ?e" .
  show "\<exists>e. ?r = Inl e \<and> Cause e = None \<and> ErrorContains e ''found no suitable version of chart''"
  proof (intro exI conjI)
    show "?r = Inl ?e" by (rule res)
    show "Cause ?e = None" by simp
    show "ErrorContains ?e ''found no suitable version of chart''" by (rule ErrorContains_New)
  qed
qed

text \<open>
  The theorem at the cases of \<^verbatim>\<open>TestSelectCharts\<close> (the credentials lookup fails, the
  version search fails, no version is found, version 1.0.0 is found), the two failures of
  the search at the second of three subscriptions.
\<close>

theorem selectCharts_failures_witness:
  "selectCharts ex_identity (ex_noCredentials (Some (New ''something went wrong''))) ex_versions
     ''fake-namespace'' [ex_chartSub ''fake-chart''] =
     Inl (Wrapf (New ''something went wrong'')
            ''error obtaining credentials for chart fake-chart in repository fake-url'')
   \<and> selectCharts ex_identity (ex_noCredentials None) ex_versions
     ''fake-namespace'' [ex_chartSub ''fake-chart'', ex_chartSub ''broken-chart'', ex_chartSub ''empty-chart''] =
     Inl (Wrapf (New ''something went wrong'')
            ''error searching for latest version of chart broken-chart in repository fake-url'')
   \<and> selectCharts ex_identity (ex_noCredentials None) ex_versions
     ''fake-namespace'' [ex_chartSub ''fake-chart'', ex_chartSub ''empty-chart'', ex_chartSub ''broken-chart''] =
     Inl (New ''found no suitable version of chart empty-chart in repository fake-url'')
   \<and> selectCharts ex_identity (ex_noCredentials None) ex_versions
     ''fake-namespace'' [ex_chartSub ''fake-chart''] =
     Inr [\<lparr>Chart_wh.RepoURL = ''fake-url'', Chart_wh.Name = ''fake-chart'',
           Chart_wh.Version = ''1.0.0''\<rparr>]
   \<and> (\<exists>e. selectCharts ex_identity (ex_noCredentials None) ex_versions ''fake-namespace''
             ([ex_chartSub ''fake-chart''] @ ex_chartSub ''empty-chart'' # [ex_chartSub ''broken-chart'']) =
             Inl e
          \<and> Cause e = None
          \<and> ErrorContains e ''found no suitable version of chart'')"
proof -
  have b: "list_all (selects (ex_noCredentials None) ex_versions ''fake-namespace'')
             [ex_chartSub ''fake-chart'']"
    by (simp add: selects_def ex_chartSub_def ex_noCredentials_def ex_versions_def)
  have c: "Chart (ex_chartSub ''empty-chart'') =
      Some \<lparr>ChartSubscription_wh.RepoURL = ''fake-url'', ChartSubscription_wh.Name = ''empty-chart'',
            ChartSubscription_wh.SemverConstraint = ''''\<rparr>"
    by (simp add: ex_chartSub_def)
  have g: "ex_noCredentials None ''fake-namespace''
        (ChartSubscription_wh.RepoURL
           \<lparr>ChartSubscription_wh.RepoURL = ''fake-url'', ChartSubscription_wh.Name = ''empty-chart'',
            ChartSubscription_wh.SemverConstraint = ''''\<rparr>) =
      (\<lparr>Username = '''', Password = ''''\<rparr>, False, None)"
    by (simp add: ex_noCredentials_def)
  have v: "ex_versions
        (ChartSubscription_wh.RepoURL
           \<lparr>ChartSubscription_wh.RepoURL = ''fake-url'', ChartSubscription_wh.Name = ''empty-chart'',
            ChartSubscription_wh.SemverConstraint = ''''\<rparr>)
        (ChartSubscription_wh.Name
           \<lparr>ChartSubscription_wh.RepoURL = ''fake-url'', ChartSubscription_wh.Name = ''empty-chart'',
            ChartSubscription_wh.SemverConstraint = ''''\<rparr>)
        (ChartSubscription_wh.SemverConstraint
           \<lparr>ChartSubscription_wh.RepoURL = ''fake-url'', ChartSubscription_wh.Name = ''empty-chart'',
            ChartSubscription_wh.SemverConstraint = ''''\<rparr>)
        (if False then Some \<lparr>Username = '''', Password = ''''\<rparr> else None) = ('''', None)"
    by (simp add: ex_versions_def)
  have 5: "\<exists>e. selectCharts ex_identity (ex_noCredentials None) ex_versions ''fake-namespace''
             ([ex_chartSub ''fake-chart''] @ ex_chartSub ''empty-chart'' # [ex_chartSub ''broken-chart'']) =
             Inl e
          \<and> Cause e = None
          \<and> ErrorContains e ''found no suitable version of chart''"
    by (rule selectCharts_failures
          [OF b c, where chartIdentity = ex_identity and after = "[ex_chartSub ''broken-chart'']",
           THEN conjunct2, THEN conjunct2, rule_format, OF g v])
  have 1234: "selectCharts ex_identity (ex_noCredentials (Some (New ''something went wrong''))) ex_versions
     ''fake-namespace'' [ex_chartSub ''fake-chart''] =
     Inl (Wrapf (New ''something went wrong'')
            ''error obtaining credentials for chart fake-chart in repository fake-url'')
   \<and> selectCharts ex_identity (ex_noCredentials None) ex_versions
     ''fake-namespace'' [ex_chartSub ''fake-chart'', ex_chartSub ''broken-chart'', ex_chartSub ''empty-chart''] =
     Inl (Wrapf (New ''something went wrong'')
            ''error searching for latest version of chart broken-chart in repository fake-url'')
   \<and> selectCharts ex_identity (ex_noCredentials None) ex_versions
     ''fake-namespace'' [ex_chartSub ''fake-chart'', ex_chartSub ''empty-chart'', ex_chartSub ''broken-chart''] =
     Inl (New ''found no suitable version of chart empty-chart in repository fake-url'')
   \<and> selectCharts ex_identity (ex_noCredentials None) ex_versions
     ''fake-namespace'' [ex_chartSub ''fake-chart''] =
     Inr [\<lparr>Chart_wh.RepoURL = ''fake-url'', Chart_wh.Name = ''fake-chart'',
           Chart_wh.Version = ''1.0.0''\<rparr>]"
    by (simp add: ex_chartSub_def ex_noCredentials_def ex_versions_def ex_identity_def)
  from 1234 5 show ?thesis
    by (simp only: simp_thms)
qed

end
